theory Spec2Isabelle
  imports Complex_Main "HOL-Library.AList"
begin

section \<open>Python values and the exceptions of the modelled code\<close>

text \<open>
  The load-balancer manager (\<^verbatim>\<open>src/loadbalancer.py\<close>) shells out to the cloud CLI,
  decodes some of the answers as JSON, reads one line from the operator and records
  the outcome in the manifest. The model keeps the source's control flow: every
  \<^verbatim>\<open>raise\<close> that the source can reach is a value of type \<open>exn\<close>, every
  \<^verbatim>\<open>except\<close> clause is a case distinction on it.
\<close>

datatype exn =
    CalledProcessError | JSONDecodeError | KeyError | TypeError | AttributeError
  | ValueError | OverflowError | EOFError

text \<open>
  A Python float: the finite ones are rationals, the three special values are kept
  apart because \<^verbatim>\<open>int()\<close> fails differently on them.
\<close>

datatype pyfloat = Finite rat | PosInf | NegInf | NaN

text \<open>
  What \<^verbatim>\<open>json.loads\<close> returns. An object is an association list: Python dictionaries
  keep insertion order, \<open>AList.update\<close> overwrites in place or appends as
  \<^verbatim>\<open>d[k] = v\<close> does, \<open>AList.delete\<close> is \<^verbatim>\<open>del d[k]\<close>, \<open>map_of\<close> is the lookup.
  Strings are byte strings (\<open>char list\<close>).
\<close>

datatype json =
    JNull | JBool bool | JInt int | JFloat pyfloat | JStr string
  | JArr "json list" | JObj "(string \<times> json) list"

text \<open>Truth value of a Python object, as \<^verbatim>\<open>if x:\<close> and \<^verbatim>\<open>x or y\<close> test it.\<close>

fun truthy :: "json \<Rightarrow> bool" where
  "truthy JNull = False"
| "truthy (JBool b) = b"
| "truthy (JInt n) = (n \<noteq> 0)"
| "truthy (JFloat f) = (f \<noteq> Finite 0)"
| "truthy (JStr s) = (s \<noteq> [])"
| "truthy (JArr xs) = (xs \<noteq> [])"
| "truthy (JObj kvs) = (kvs \<noteq> [])"

text \<open>\<^verbatim>\<open>s.startswith(p)\<close>\<close>

definition startswith :: "string \<Rightarrow> string \<Rightarrow> bool" where
  "startswith s p = (take (length p) s = p)"

text \<open>\<^verbatim>\<open>sub in s\<close> for two strings\<close>

fun contains_str :: "string \<Rightarrow> string \<Rightarrow> bool" where
  "contains_str sub [] = (sub = [])"
| "contains_str sub (c # cs) = (startswith (c # cs) sub \<or> contains_str sub cs)"

text \<open>
  \<^verbatim>\<open>s.split(sep)\<close> for a non-empty separator: the pieces between the
  non-overlapping occurrences of \<open>sep\<close>, found from the left. (Python raises
  ValueError on an empty separator; the source only splits on
  \<^verbatim>\<open>'\n'\<close>, \<^verbatim>\<open>'name:'\<close>, \<^verbatim>\<open>'secret:'\<close> and \<^verbatim>\<open>'/'\<close>.)
\<close>

function split_from :: "string \<Rightarrow> string \<Rightarrow> string \<Rightarrow> string list" where
  "split_from sep acc [] = [rev acc]"
| "split_from sep acc (c # cs) =
     (if sep \<noteq> [] \<and> startswith (c # cs) sep
      then rev acc # split_from sep [] (drop (length sep) (c # cs))
      else split_from sep (c # acc) cs)"
  by pat_completeness auto
termination
  by (relation "measure (\<lambda>(sep, acc, s). length s)") auto

definition py_split :: "string \<Rightarrow> string \<Rightarrow> string list" where
  "py_split s sep = split_from sep [] s"

text \<open>
  \<^verbatim>\<open>s.replace(old, "")\<close> for a non-empty \<open>old\<close>: every non-overlapping occurrence,
  found from the left, is dropped.
\<close>

function remove_all :: "string \<Rightarrow> string \<Rightarrow> string" where
  "remove_all old [] = []"
| "remove_all old (c # cs) =
     (if old \<noteq> [] \<and> startswith (c # cs) old
      then remove_all old (drop (length old) (c # cs))
      else c # remove_all old cs)"
  by pat_completeness auto
termination
  by (relation "measure (\<lambda>(old, s). length s)") auto

text \<open>
  \<^verbatim>\<open>s.strip()\<close>: the ASCII white space that Python strips
  (tab, line feed, vertical tab, form feed, carriage return, the four separators
  \<open>0x1C\<close> to \<open>0x1F\<close>, space).
\<close>

definition is_space :: "char \<Rightarrow> bool" where
  "is_space c = (c \<in> set [CHR 0x09, CHR 0x0A, CHR 0x0B, CHR 0x0C, CHR 0x0D,
                            CHR 0x1C, CHR 0x1D, CHR 0x1E, CHR 0x1F, CHR 0x20])"

definition py_strip :: "string \<Rightarrow> string" where
  "py_strip s = rev (dropWhile is_space (rev (dropWhile is_space s)))"

text \<open>
  \<^verbatim>\<open>s.lower()\<close> on the ASCII letters. Python also lowers letters beyond ASCII, but no
  such letter lowers to \<^verbatim>\<open>y\<close>, \<^verbatim>\<open>e\<close> or \<^verbatim>\<open>s\<close>, and the source only compares the
  result with \<^verbatim>\<open>'y'\<close> and \<^verbatim>\<open>'yes'\<close>.
\<close>

definition lower_char :: "char \<Rightarrow> char" where
  "lower_char c =
     (let n = (of_char c :: nat) in if 65 \<le> n \<and> n \<le> 90 then char_of (n + 32) else c)"

definition py_lower :: "string \<Rightarrow> string" where
  "py_lower s = map lower_char s"

text \<open>\<^verbatim>\<open>x or y\<close> on optional strings: \<open>None\<close> and the empty string are false.\<close>

definition str_or :: "string option \<Rightarrow> string option \<Rightarrow> string option" where
  "str_or x y = (case x of Some (c # cs) \<Rightarrow> Some (c # cs) | _ \<Rightarrow> y)"

definition str_or_default :: "string option \<Rightarrow> string \<Rightarrow> string" where
  "str_or_default x d = (case x of Some (c # cs) \<Rightarrow> c # cs | _ \<Rightarrow> d)"

text \<open>\<^verbatim>\<open>for x in v\<close>: lists give their elements, dictionaries their keys, strings their
  characters; nothing else that JSON decodes to is iterable.\<close>

fun py_iter :: "json \<Rightarrow> exn + json list" where
  "py_iter (JArr xs) = Inr xs"
| "py_iter (JObj kvs) = Inr (map (\<lambda>kv. JStr (fst kv)) kvs)"
| "py_iter (JStr s) = Inr (map (\<lambda>c. JStr [c]) s)"
| "py_iter _ = Inl TypeError"

text \<open>\<^verbatim>\<open>len(v)\<close>\<close>

fun py_len :: "json \<Rightarrow> exn + nat" where
  "py_len (JArr xs) = Inr (length xs)"
| "py_len (JObj kvs) = Inr (length kvs)"
| "py_len (JStr s) = Inr (length s)"
| "py_len _ = Inl TypeError"

text \<open>\<^verbatim>\<open>k in v\<close> for a string \<open>k\<close>\<close>

fun py_in :: "string \<Rightarrow> json \<Rightarrow> exn + bool" where
  "py_in k (JObj kvs) = Inr (map_of kvs k \<noteq> None)"
| "py_in k (JArr xs) = Inr (JStr k \<in> set xs)"
| "py_in k (JStr s) = Inr (contains_str k s)"
| "py_in k _ = Inl TypeError"

text \<open>\<^verbatim>\<open>v.get(k, d)\<close>: only dictionaries have the method.\<close>

fun py_get :: "json \<Rightarrow> string \<Rightarrow> json \<Rightarrow> exn + json" where
  "py_get (JObj kvs) k d = Inr (case map_of kvs k of None \<Rightarrow> d | Some v \<Rightarrow> v)"
| "py_get _ k d = Inl AttributeError"

text \<open>
  \<^verbatim>\<open>int(v)\<close>. On a string the result is the interpreter's business (sign, white
  space, underscores, digit limits differ between versions), so the string case is a
  parameter: \<open>None\<close> stands for ValueError. A float is truncated towards zero.
\<close>

fun py_int :: "(string \<Rightarrow> int option) \<Rightarrow> json \<Rightarrow> exn + int" where
  "py_int str_int (JInt n) = Inr n"
| "py_int str_int (JBool b) = Inr (if b then 1 else 0)"
| "py_int str_int (JFloat (Finite q)) = Inr (if 0 \<le> q then \<lfloor>q\<rfloor> else \<lceil>q\<rceil>)"
| "py_int str_int (JFloat NaN) = Inl ValueError"
| "py_int str_int (JFloat PosInf) = Inl OverflowError"
| "py_int str_int (JFloat NegInf) = Inl OverflowError"
| "py_int str_int (JStr s) = (case str_int s of None \<Rightarrow> Inl ValueError | Some n \<Rightarrow> Inr n)"
| "py_int str_int JNull = Inl TypeError"
| "py_int str_int (JArr xs) = Inl TypeError"
| "py_int str_int (JObj kvs) = Inl TypeError"

section \<open>The boundaries: command executor, interpreter, operator, manifest\<close>

type_synonym argv = "string list"

text \<open>What \<^verbatim>\<open>subprocess.run\<close> hands back.\<close>

record cmd_result =
  returncode :: int
  stdout :: string
  stderr :: string

text \<open>
  The environment of a run, none of it code of the repository: the cloud control
  plane answers a command as a function of all commands issued so far (the last one
  being the command answered), \<^verbatim>\<open>json.loads\<close> decodes a text or raises
  JSONDecodeError (\<open>None\<close>), \<^verbatim>\<open>int\<close> converts a string or raises ValueError (\<open>None\<close>).
\<close>

record env =
  cloud :: "argv list \<Rightarrow> cmd_result"
  json_loads :: "string \<Rightarrow> json option"
  str_int :: "string \<Rightarrow> int option"

text \<open>
  Modelled from the spec: the project context (\<^verbatim>\<open>ProjectConfig\<close> of the module
  \<^verbatim>\<open>config\<close>, which is not among the sources), immutable configuration resolved
  before any operation. Only the fields the manager reads are kept: project name,
  cloud project id, default region.
\<close>

record project_config =
  project_name :: string
  gcp_project_id :: string
  default_region :: string

text \<open>
  Modelled from the spec: the manifest store (\<^verbatim>\<open>ManifestManager\<close> of the module
  \<^verbatim>\<open>manifest\<close>, which is not among the sources). It has three facets: boolean
  state flags, string config values, and an append-only operation log of operation
  name and detail mapping (the timestamp is implicit and left out). Its interface is
  \<^verbatim>\<open>get_state(key) -> bool|absent\<close>, \<^verbatim>\<open>update_state(key, value)\<close>,
  \<^verbatim>\<open>get_config(key) -> string|absent\<close>, \<^verbatim>\<open>update_config(key, value|null)\<close> and
  \<^verbatim>\<open>log_operation(name, detail)\<close>; flags and values are last-write-wins.
\<close>

record manifest =
  state_flags :: "(string \<times> bool) list"
  config_values :: "(string \<times> string option) list"
  operation_log :: "(string \<times> (string \<times> string) list) list"

text \<open>Modelled from the spec: \<^verbatim>\<open>get_state(key) -> bool|absent\<close>.\<close>

definition get_state :: "manifest \<Rightarrow> string \<Rightarrow> bool option" where
  "get_state m k = map_of (state_flags m) k"

text \<open>Modelled from the spec: \<^verbatim>\<open>update_state(key, value)\<close>, last write wins.\<close>

definition update_state :: "string \<Rightarrow> bool \<Rightarrow> manifest \<Rightarrow> manifest" where
  "update_state k v m = m\<lparr>state_flags := AList.update k v (state_flags m)\<rparr>"

text \<open>Modelled from the spec: \<^verbatim>\<open>get_config(key) -> string|absent\<close>; a cleared value reads as absent.\<close>

definition get_config :: "manifest \<Rightarrow> string \<Rightarrow> string option" where
  "get_config m k = (case map_of (config_values m) k of None \<Rightarrow> None | Some v \<Rightarrow> v)"

text \<open>Modelled from the spec: \<^verbatim>\<open>update_config(key, value|null)\<close>, last write wins.\<close>

definition update_config :: "string \<Rightarrow> string option \<Rightarrow> manifest \<Rightarrow> manifest" where
  "update_config k v m = m\<lparr>config_values := AList.update k v (config_values m)\<rparr>"

text \<open>Modelled from the spec: \<^verbatim>\<open>log_operation(name, detail)\<close> appends one entry; the log is never rewritten.\<close>

definition log_operation :: "string \<Rightarrow> (string \<times> string) list \<Rightarrow> manifest \<Rightarrow> manifest" where
  "log_operation name detail m = m\<lparr>operation_log := operation_log m @ [(name, detail)]\<rparr>"

text \<open>
  The state a run changes: the commands issued so far, the lines the operator will
  type, the prompts shown by \<^verbatim>\<open>input\<close>, the document last written to the scratch file
  \<^verbatim>\<open>/tmp/url-map-update.json\<close>, and the manifest. Printing is not modelled.
\<close>

record world =
  calls :: "argv list"
  stdin :: "string list"
  prompts :: "string list"
  scratch_file :: "json option"
  manifest :: manifest

text \<open>\<^verbatim>\<open>subprocess.run(argv)\<close> without \<^verbatim>\<open>check\<close>: the command is issued and answered.\<close>

definition run :: "env \<Rightarrow> argv \<Rightarrow> world \<Rightarrow> cmd_result \<times> world" where
  "run E a w = (cloud E (calls w @ [a]), w\<lparr>calls := calls w @ [a]\<rparr>)"

text \<open>\<^verbatim>\<open>input(prompt)\<close>: the next line, EOFError when there is none.\<close>

definition py_input :: "string \<Rightarrow> world \<Rightarrow> (exn + string) \<times> world" where
  "py_input p w =
     (case stdin w of
        [] \<Rightarrow> (Inl EOFError, w\<lparr>prompts := prompts w @ [p]\<rparr>)
      | l # ls \<Rightarrow> (Inr l, w\<lparr>stdin := ls, prompts := prompts w @ [p]\<rparr>))"

text \<open>
  A command that only reads is a \<^verbatim>\<open>describe\<close>: in every command of the manager the verb
  is the fourth word, or the fifth for the security-policy rule. All other verbs
  (create, delete, update, add-backend, add-iam-policy-binding, import) change the
  cloud.
\<close>

definition read_only :: "argv \<Rightarrow> bool" where
  "read_only a = (case a of g # c # r # v # _ \<Rightarrow> v = ''describe'' | _ \<Rightarrow> False)"

definition mutating_calls :: "argv list \<Rightarrow> argv list" where
  "mutating_calls cs = filter (\<lambda>a. \<not> read_only a) cs"

section \<open>The fixed topology\<close>

definition URL_MAP_NAME :: string where "URL_MAP_NAME = ''marketing-ai-url-map''"
definition DOMAIN :: string where "DOMAIN = ''marketing-ai.lightricks.com''"
definition BRAND_NAME :: string where "BRAND_NAME = ''projects/924389117365/brands/924389117365''"
definition IAP_DOMAIN :: string where "IAP_DOMAIN = ''lightricks.com''"

section \<open>The provisioners\<close>

definition neg_describe_cmd :: "project_config \<Rightarrow> string \<Rightarrow> argv" where
  "neg_describe_cmd cfg region =
     [''gcloud'', ''compute'', ''network-endpoint-groups'', ''describe'', project_name cfg @ ''-neg'',
      ''--region='' @ region, ''--project='' @ gcp_project_id cfg]"

definition neg_create_cmd :: "project_config \<Rightarrow> string \<Rightarrow> string \<Rightarrow> argv" where
  "neg_create_cmd cfg region cloud_run_service =
     [''gcloud'', ''compute'', ''network-endpoint-groups'', ''create'', project_name cfg @ ''-neg'',
      ''--region='' @ region, ''--network-endpoint-type=SERVERLESS'',
      ''--cloud-run-service='' @ cloud_run_service, ''--project='' @ gcp_project_id cfg]"

text \<open>\<^verbatim>\<open>create_serverless_neg\<close>: probe, then create; a failing create is caught.\<close>

definition create_serverless_neg ::
  "env \<Rightarrow> project_config \<Rightarrow> string \<Rightarrow> string \<Rightarrow> world \<Rightarrow> bool \<times> world" where
  "create_serverless_neg E cfg region cloud_run_service w =
     (let (check_result, w1) = run E (neg_describe_cmd cfg region) w in
      if returncode check_result = 0 then (True, w1)
      else
        let (r, w2) = run E (neg_create_cmd cfg region cloud_run_service) w1 in
        if returncode r \<noteq> 0 then (False, w2) else (True, w2))"

definition iap_binding_cmd :: "project_config \<Rightarrow> string \<Rightarrow> argv" where
  "iap_binding_cmd cfg backend_name =
     [''gcloud'', ''iap'', ''web'', ''add-iam-policy-binding'',
      ''--resource-type=backend-services'', ''--service='' @ backend_name,
      ''--member=domain:'' @ IAP_DOMAIN, ''--role=roles/iap.httpsResourceAccessor'',
      ''--project='' @ gcp_project_id cfg]"

text \<open>\<^verbatim>\<open>grant_iap_access\<close>: the command runs with \<^verbatim>\<open>check=False\<close>, so the handler for
  CalledProcessError is never entered.\<close>

definition grant_iap_access :: "env \<Rightarrow> project_config \<Rightarrow> string \<Rightarrow> world \<Rightarrow> bool \<times> world" where
  "grant_iap_access E cfg backend_name w =
     (let (r, w1) = run E (iap_binding_cmd cfg backend_name) w in (True, w1))"

text \<open>\<^verbatim>\<open>create_iap_oauth_client\<close>: the value object it returns.\<close>

record oauth_client =
  client_id :: string
  client_secret :: string
  display_name :: string

definition oauth_create_cmd :: "project_config \<Rightarrow> argv" where
  "oauth_create_cmd cfg =
     [''gcloud'', ''iap'', ''oauth-clients'', ''create'', BRAND_NAME,
      ''--display_name='' @ (''IAP-'' @ project_name cfg @ ''-backend'')]"

text \<open>
  The loop over the lines of the output: a line with \<^verbatim>\<open>name:\<close> sets the client id
  (the last path segment of what follows), otherwise a line with \<^verbatim>\<open>secret:\<close> sets
  the secret. The piece \<open>! 1\<close> exists, see \<open>py_split_second\<close> below.
\<close>

fun parse_oauth_lines ::
  "string list \<Rightarrow> string option \<times> string option \<Rightarrow> string option \<times> string option" where
  "parse_oauth_lines [] acc = acc"
| "parse_oauth_lines (line # lines) (cid, secret) =
     (if contains_str ''name:'' line
      then parse_oauth_lines lines
             (Some (last (py_split (py_strip (py_split line ''name:'' ! 1)) ''/'')), secret)
      else if contains_str ''secret:'' line
      then parse_oauth_lines lines (cid, Some (py_strip (py_split line ''secret:'' ! 1)))
      else parse_oauth_lines lines (cid, secret))"

definition create_iap_oauth_client ::
  "env \<Rightarrow> project_config \<Rightarrow> world \<Rightarrow> oauth_client option \<times> world" where
  "create_iap_oauth_client E cfg w =
     (let (result, w1) = run E (oauth_create_cmd cfg) w in
      if returncode result \<noteq> 0 then (None, w1)
      else
        case parse_oauth_lines (py_split (stdout result) [CHR 0x0A]) (None, None) of
          (Some (c # cs), Some (d # ds)) \<Rightarrow>
            (Some \<lparr>client_id = c # cs, client_secret = d # ds,
                    display_name = ''IAP-'' @ project_name cfg @ ''-backend''\<rparr>, w1)
        | _ \<Rightarrow> (None, w1))"

definition policy_name_of :: "project_config \<Rightarrow> string" where
  "policy_name_of cfg =
     ''default-security-policy-for-backend-service-'' @ project_name cfg @ ''-backend''"

definition policy_describe_cmd :: "project_config \<Rightarrow> argv" where
  "policy_describe_cmd cfg =
     [''gcloud'', ''compute'', ''security-policies'', ''describe'', policy_name_of cfg,
      ''--project='' @ gcp_project_id cfg]"

definition policy_create_cmd :: "project_config \<Rightarrow> argv" where
  "policy_create_cmd cfg =
     [''gcloud'', ''compute'', ''security-policies'', ''create'', policy_name_of cfg,
      ''--description=Default security policy for: '' @ project_name cfg @ ''-backend'',
      ''--project='' @ gcp_project_id cfg]"

definition policy_rule_cmd :: "project_config \<Rightarrow> argv" where
  "policy_rule_cmd cfg =
     [''gcloud'', ''compute'', ''security-policies'', ''rules'', ''create'', ''2147483646'',
      ''--security-policy='' @ policy_name_of cfg, ''--action=throttle'',
      ''--description=Default rate limiting rule'', ''--src-ip-ranges=*'',
      ''--rate-limit-threshold-count=500'', ''--rate-limit-threshold-interval-sec=60'',
      ''--conform-action=allow'', ''--exceed-action=deny-403'', ''--enforce-on-key=IP'',
      ''--project='' @ gcp_project_id cfg]"

text \<open>\<^verbatim>\<open>create_security_policy\<close>\<close>

definition create_security_policy :: "env \<Rightarrow> project_config \<Rightarrow> world \<Rightarrow> bool \<times> world" where
  "create_security_policy E cfg w =
     (let (check_result, w1) = run E (policy_describe_cmd cfg) w in
      if returncode check_result = 0 then (True, w1)
      else
        let (r1, w2) = run E (policy_create_cmd cfg) w1 in
        if returncode r1 \<noteq> 0 then (False, w2)
        else
          let (r2, w3) = run E (policy_rule_cmd cfg) w2 in
          if returncode r2 \<noteq> 0 then (False, w3) else (True, w3))"

definition backend_describe_cmd :: "project_config \<Rightarrow> argv" where
  "backend_describe_cmd cfg =
     [''gcloud'', ''compute'', ''backend-services'', ''describe'', project_name cfg @ ''-backend'',
      ''--global'', ''--project='' @ gcp_project_id cfg]"

definition backend_delete_cmd :: "project_config \<Rightarrow> argv" where
  "backend_delete_cmd cfg =
     [''gcloud'', ''compute'', ''backend-services'', ''delete'', project_name cfg @ ''-backend'',
      ''--global'', ''--quiet'', ''--project='' @ gcp_project_id cfg]"

definition backend_add_neg_cmd :: "project_config \<Rightarrow> string \<Rightarrow> argv" where
  "backend_add_neg_cmd cfg region =
     [''gcloud'', ''compute'', ''backend-services'', ''add-backend'', project_name cfg @ ''-backend'',
      ''--global'', ''--network-endpoint-group='' @ (project_name cfg @ ''-neg''),
      ''--network-endpoint-group-region='' @ region, ''--project='' @ gcp_project_id cfg]"

definition backend_update_policy_cmd :: "project_config \<Rightarrow> argv" where
  "backend_update_policy_cmd cfg =
     [''gcloud'', ''compute'', ''backend-services'', ''update'', project_name cfg @ ''-backend'',
      ''--global'', ''--security-policy='' @ policy_name_of cfg,
      ''--project='' @ gcp_project_id cfg]"

definition backend_create_cmd :: "project_config \<Rightarrow> oauth_client \<Rightarrow> argv" where
  "backend_create_cmd cfg oc =
     [''gcloud'', ''compute'', ''backend-services'', ''create'', project_name cfg @ ''-backend'',
      ''--global'', ''--load-balancing-scheme=EXTERNAL_MANAGED'',
      ''--iap=enabled,oauth2-client-id='' @ client_id oc @ '',oauth2-client-secret='' @ client_secret oc,
      ''--custom-response-header=Access-Control-Allow-Methods: GET,POST,OPTIONS'',
      ''--custom-response-header=Access-Control-Allow-Origin: https://'' @ DOMAIN,
      ''--custom-response-header=Access-Control-Allow-Headers: *'',
      ''--custom-response-header=Access-Control-Allow-Credentials: true'',
      ''--project='' @ gcp_project_id cfg]"

text \<open>
  \<^verbatim>\<open>"backends" in backend_info and len(backend_info.get("backends", [])) > 0\<close>;
  \<^verbatim>\<open>and\<close> does not evaluate its right operand when the left one is false.
\<close>

definition has_backends :: "json \<Rightarrow> exn + bool" where
  "has_backends backend_info =
     (case py_in ''backends'' backend_info of
        Inl e \<Rightarrow> Inl e
      | Inr False \<Rightarrow> Inr False
      | Inr True \<Rightarrow>
          (case py_get backend_info ''backends'' (JArr []) of
             Inl e \<Rightarrow> Inl e
           | Inr v \<Rightarrow> (case py_len v of Inl e \<Rightarrow> Inl e | Inr n \<Rightarrow> Inr (0 < n))))"

text \<open>The creation code at the end of \<^verbatim>\<open>create_backend_service\<close>: three commands,
  each with \<^verbatim>\<open>check=True\<close>, under the handler for CalledProcessError.\<close>

definition create_fresh_backend ::
  "env \<Rightarrow> project_config \<Rightarrow> string \<Rightarrow> oauth_client \<Rightarrow> world \<Rightarrow> bool \<times> world" where
  "create_fresh_backend E cfg region oc w =
     (let (r1, w1) = run E (backend_create_cmd cfg oc) w in
      if returncode r1 \<noteq> 0 then (False, w1)
      else
        let (r2, w2) = run E (backend_add_neg_cmd cfg region) w1 in
        if returncode r2 \<noteq> 0 then (False, w2)
        else
          let (r3, w3) = run E (backend_update_policy_cmd cfg) w2 in
          if returncode r3 \<noteq> 0 then (False, w3) else (True, w3))"

text \<open>
  \<^verbatim>\<open>create_backend_service\<close>. Everything between the probe and the creation code sits
  under \<^verbatim>\<open>except Exception\<close>, which turns every exception raised there (a text that
  is not JSON, a decoded value of the wrong shape, the failed delete) into
  \<^verbatim>\<open>return False\<close>.
\<close>

definition create_backend_service ::
  "env \<Rightarrow> project_config \<Rightarrow> string \<Rightarrow> oauth_client \<Rightarrow> world \<Rightarrow> bool \<times> world" where
  "create_backend_service E cfg region oc w =
     (let (check_result, w1) = run E (backend_describe_cmd cfg) w in
      if returncode check_result = 0 then
        (case json_loads E (stdout check_result) of
           None \<Rightarrow> (False, w1)
         | Some backend_info \<Rightarrow>
             (case has_backends backend_info of
                Inl e \<Rightarrow> (False, w1)
              | Inr False \<Rightarrow>
                  (case py_get backend_info ''portName'' JNull of
                     Inl e \<Rightarrow> (False, w1)
                   | Inr port_name \<Rightarrow>
                       if truthy port_name then
                         let (d, w2) = run E (backend_delete_cmd cfg) w1 in
                         if returncode d \<noteq> 0 then (False, w2)
                         else create_fresh_backend E cfg region oc w2
                       else
                         let (add_result, w2) = run E (backend_add_neg_cmd cfg region) w1 in
                         if returncode add_result \<noteq> 0 then (False, w2) else (True, w2))
              | Inr True \<Rightarrow>
                  let (u, w2) = run E (backend_update_policy_cmd cfg) w1 in (True, w2)))
      else create_fresh_backend E cfg region oc w1)"

section \<open>The URL map editor\<close>

definition PATH_MATCHER :: string where "PATH_MATCHER = ''path-matcher-1''"

definition urlmap_describe_cmd :: "project_config \<Rightarrow> argv" where
  "urlmap_describe_cmd cfg =
     [''gcloud'', ''compute'', ''url-maps'', ''describe'', URL_MAP_NAME, ''--format=json'',
      ''--project='' @ gcp_project_id cfg]"

definition urlmap_import_cmd :: "project_config \<Rightarrow> argv" where
  "urlmap_import_cmd cfg =
     [''gcloud'', ''compute'', ''url-maps'', ''import'', URL_MAP_NAME,
      ''--source=/tmp/url-map-update.json'', ''--quiet'', ''--project='' @ gcp_project_id cfg]"

text \<open>The rule built by \<^verbatim>\<open>add_path_rule\<close>; the host rewrite is added when the Cloud Run
  host name is neither \<^verbatim>\<open>None\<close> nor empty.\<close>

definition new_rule :: "project_config \<Rightarrow> string \<Rightarrow> string \<Rightarrow> string option \<Rightarrow> json" where
  "new_rule cfg path backend_name cloud_run_url =
     JObj [(''paths'', JArr [JStr path, JStr (path @ ''/''), JStr (path @ ''/*'')]),
           (''routeAction'',
              JObj [(''urlRewrite'',
                 JObj ((''pathPrefixRewrite'', JStr ''/'') #
                       (case cloud_run_url of
                          Some (c # cs) \<Rightarrow> [(''hostRewrite'', JStr (c # cs))]
                        | _ \<Rightarrow> [])))]),
           (''service'',
              JStr (''https://www.googleapis.com/compute/v1/projects/'' @ gcp_project_id cfg @
                    ''/global/backendServices/'' @ backend_name))]"

text \<open>\<^verbatim>\<open>url_map.get("pathMatchers", [])\<close>, as the \<^verbatim>\<open>for\<close> statements walk it.\<close>

definition matchers_of :: "(string \<times> json) list \<Rightarrow> exn + json list" where
  "matchers_of url_map =
     (case map_of url_map ''pathMatchers'' of None \<Rightarrow> Inr [] | Some v \<Rightarrow> py_iter v)"

text \<open>
  Both iterations change the matchers in place. The change is seen in the document when the
  matchers are the elements of a list; the keys of a dictionary and the characters of
  a string are copies (and an iteration that gets past one of them has changed nothing).
\<close>

definition store_matchers :: "(string \<times> json) list \<Rightarrow> json list \<Rightarrow> (string \<times> json) list" where
  "store_matchers url_map ms =
     (case map_of url_map ''pathMatchers'' of
        Some (JArr old) \<Rightarrow> AList.update ''pathMatchers'' (JArr ms) url_map
      | _ \<Rightarrow> url_map)"

text \<open>
  The first loop of \<^verbatim>\<open>add_path_rule\<close>: the first matcher named \<^verbatim>\<open>path-matcher-1\<close> gets
  the rule appended, then \<^verbatim>\<open>break\<close>. \<^verbatim>\<open>matcher["name"]\<close> raises TypeError on what is
  not a dictionary and KeyError on a dictionary without the key; \<^verbatim>\<open>.append\<close> exists
  on lists only.
\<close>

fun add_rule_loop :: "json \<Rightarrow> json list \<Rightarrow> exn + json list" where
  "add_rule_loop rule [] = Inr []"
| "add_rule_loop rule (JObj matcher # ms) =
     (case map_of matcher ''name'' of
        None \<Rightarrow> Inl KeyError
      | Some n \<Rightarrow>
          if n = JStr PATH_MATCHER then
            (case map_of matcher ''pathRules'' of
               None \<Rightarrow> Inr (JObj (AList.update ''pathRules'' (JArr [rule]) matcher) # ms)
             | Some (JArr rules) \<Rightarrow>
                 Inr (JObj (AList.update ''pathRules'' (JArr (rules @ [rule])) matcher) # ms)
             | Some _ \<Rightarrow> Inl AttributeError)
          else
            (case add_rule_loop rule ms of
               Inl e \<Rightarrow> Inl e
             | Inr ms' \<Rightarrow> Inr (JObj matcher # ms')))"
| "add_rule_loop rule (m # ms) = Inl TypeError"

text \<open>\<^verbatim>\<open>any(p.startswith(path) for p in ...)\<close>: stops at the first hit; \<^verbatim>\<open>startswith\<close>
  exists on strings only.\<close>

fun any_startswith :: "string \<Rightarrow> json list \<Rightarrow> exn + bool" where
  "any_startswith path [] = Inr False"
| "any_startswith path (JStr p # ps) =
     (if startswith p path then Inr True else any_startswith path ps)"
| "any_startswith path (p # ps) = Inl AttributeError"

text \<open>\<^verbatim>\<open>any(p.startswith(path) for p in rule.get("paths", []))\<close>\<close>

definition rule_matches :: "string \<Rightarrow> json \<Rightarrow> exn + bool" where
  "rule_matches path rule =
     (case py_get rule ''paths'' (JArr []) of
        Inl e \<Rightarrow> Inl e
      | Inr v \<Rightarrow> (case py_iter v of Inl e \<Rightarrow> Inl e | Inr ps \<Rightarrow> any_startswith path ps))"

text \<open>The list comprehension that keeps the rules without a matching path.\<close>

fun filter_rules :: "string \<Rightarrow> json list \<Rightarrow> exn + json list" where
  "filter_rules path [] = Inr []"
| "filter_rules path (rule # rules) =
     (case rule_matches path rule of
        Inl e \<Rightarrow> Inl e
      | Inr hit \<Rightarrow>
          (case filter_rules path rules of
             Inl e \<Rightarrow> Inl e
           | Inr rules' \<Rightarrow> Inr (if hit then rules' else rule # rules')))"

text \<open>
  The first loop of the removal in \<^verbatim>\<open>remove_from_loadbalancer\<close>: every matcher named
  \<^verbatim>\<open>path-matcher-1\<close> that has \<^verbatim>\<open>pathRules\<close> gets them filtered (there is no
  \<^verbatim>\<open>break\<close>); the comprehension always builds a list.
\<close>

fun remove_rule_loop :: "string \<Rightarrow> json list \<Rightarrow> exn + json list" where
  "remove_rule_loop path [] = Inr []"
| "remove_rule_loop path (JObj matcher # ms) =
     (case map_of matcher ''name'' of
        None \<Rightarrow> Inl KeyError
      | Some n \<Rightarrow>
          (case (if n = JStr PATH_MATCHER then
                   (case map_of matcher ''pathRules'' of
                      None \<Rightarrow> Inr (JObj matcher)
                    | Some v \<Rightarrow>
                        (case py_iter v of
                           Inl e \<Rightarrow> Inl e
                         | Inr rules \<Rightarrow>
                             (case filter_rules path rules of
                                Inl e \<Rightarrow> Inl e
                              | Inr rules' \<Rightarrow>
                                  Inr (JObj (AList.update ''pathRules'' (JArr rules') matcher)))))
                 else Inr (JObj matcher)) of
             Inl e \<Rightarrow> Inl e
           | Inr m' \<Rightarrow>
               (case remove_rule_loop path ms of
                  Inl e \<Rightarrow> Inl e
                | Inr ms' \<Rightarrow> Inr (m' # ms'))))"
| "remove_rule_loop path (m # ms) = Inl TypeError"

text \<open>
  Cleaning the output-only fields; the same code stands in \<^verbatim>\<open>add_path_rule\<close> and in
  \<^verbatim>\<open>remove_from_loadbalancer\<close>. First the \<^verbatim>\<open>id\<close>: converted by \<^verbatim>\<open>int\<close>, deleted on
  ValueError and TypeError, any other exception goes on.
\<close>

definition convert_id :: "(string \<Rightarrow> int option) \<Rightarrow> (string \<times> json) list \<Rightarrow> exn + (string \<times> json) list" where
  "convert_id si url_map =
     (case map_of url_map ''id'' of
        None \<Rightarrow> Inr url_map
      | Some v \<Rightarrow>
          (case py_int si v of
             Inr n \<Rightarrow> Inr (AList.update ''id'' (JInt n) url_map)
           | Inl ValueError \<Rightarrow> Inr (AList.delete ''id'' url_map)
           | Inl TypeError \<Rightarrow> Inr (AList.delete ''id'' url_map)
           | Inl e \<Rightarrow> Inl e))"

text \<open>\<^verbatim>\<open>if "kind" in matcher: del matcher["kind"]\<close>: the membership test works on
  dictionaries, lists and strings, the deletion on dictionaries only.\<close>

fun strip_kind :: "json \<Rightarrow> exn + json" where
  "strip_kind (JObj matcher) = Inr (JObj (AList.delete ''kind'' matcher))"
| "strip_kind m =
     (case py_in ''kind'' m of
        Inl e \<Rightarrow> Inl e
      | Inr True \<Rightarrow> Inl TypeError
      | Inr False \<Rightarrow> Inr m)"

fun strip_matchers :: "json list \<Rightarrow> exn + json list" where
  "strip_matchers [] = Inr []"
| "strip_matchers (m # ms) =
     (case strip_kind m of
        Inl e \<Rightarrow> Inl e
      | Inr m' \<Rightarrow> (case strip_matchers ms of Inl e \<Rightarrow> Inl e | Inr ms' \<Rightarrow> Inr (m' # ms')))"

definition OUTPUT_ONLY :: "string list" where
  "OUTPUT_ONLY = [''creationTimestamp'', ''selfLink'', ''fingerprint'', ''kind'']"

definition strip_output_only ::
  "(string \<Rightarrow> int option) \<Rightarrow> (string \<times> json) list \<Rightarrow> exn + (string \<times> json) list" where
  "strip_output_only si url_map =
     (case convert_id si url_map of
        Inl e \<Rightarrow> Inl e
      | Inr m1 \<Rightarrow>
          let m2 = fold AList.delete OUTPUT_ONLY m1 in
          (case matchers_of m2 of
             Inl e \<Rightarrow> Inl e
           | Inr ms \<Rightarrow>
               (case strip_matchers ms of
                  Inl e \<Rightarrow> Inl e
                | Inr ms' \<Rightarrow> Inr (store_matchers m2 ms'))))"

text \<open>The document \<^verbatim>\<open>add_path_rule\<close> writes back, from the decoded one.
  \<^verbatim>\<open>url_map.get\<close> raises AttributeError on what is not a dictionary.\<close>

definition add_rule_doc ::
  "(string \<Rightarrow> int option) \<Rightarrow> json \<Rightarrow> json \<Rightarrow> exn + json" where
  "add_rule_doc si rule doc =
     (case doc of
        JObj url_map \<Rightarrow>
          (case matchers_of url_map of
             Inl e \<Rightarrow> Inl e
           | Inr ms \<Rightarrow>
               (case add_rule_loop rule ms of
                  Inl e \<Rightarrow> Inl e
                | Inr ms' \<Rightarrow>
                    (case strip_output_only si (store_matchers url_map ms') of
                       Inl e \<Rightarrow> Inl e
                     | Inr out \<Rightarrow> Inr (JObj out))))
      | _ \<Rightarrow> Inl AttributeError)"

text \<open>The document the removal writes back, from the decoded one.\<close>

definition remove_rule_doc ::
  "(string \<Rightarrow> int option) \<Rightarrow> string \<Rightarrow> json \<Rightarrow> exn + json" where
  "remove_rule_doc si path doc =
     (case doc of
        JObj url_map \<Rightarrow>
          (case matchers_of url_map of
             Inl e \<Rightarrow> Inl e
           | Inr ms \<Rightarrow>
               (case remove_rule_loop path ms of
                  Inl e \<Rightarrow> Inl e
                | Inr ms' \<Rightarrow>
                    (case strip_output_only si (store_matchers url_map ms') of
                       Inl e \<Rightarrow> Inl e
                     | Inr out \<Rightarrow> Inr (JObj out))))
      | _ \<Rightarrow> Inl AttributeError)"

text \<open>
  \<^verbatim>\<open>add_path_rule\<close>: fetch, decode, edit, write the scratch file, import. The handlers
  catch CalledProcessError and JSONDecodeError; an exception of the editing leaves the
  function.
\<close>

definition add_path_rule ::
  "env \<Rightarrow> project_config \<Rightarrow> string \<Rightarrow> string \<Rightarrow> string option \<Rightarrow> world \<Rightarrow> (exn + bool) \<times> world" where
  "add_path_rule E cfg path backend_name cloud_run_url w =
     (let (result, w1) = run E (urlmap_describe_cmd cfg) w in
      if returncode result \<noteq> 0 then (Inr False, w1)
      else
        case json_loads E (stdout result) of
          None \<Rightarrow> (Inr False, w1)
        | Some doc \<Rightarrow>
            (case add_rule_doc (str_int E) (new_rule cfg path backend_name cloud_run_url) doc of
               Inl e \<Rightarrow> (Inl e, w1)
             | Inr out \<Rightarrow>
                 let (r, w2) = run E (urlmap_import_cmd cfg) (w1\<lparr>scratch_file := Some out\<rparr>) in
                 if returncode r \<noteq> 0 then (Inr False, w2) else (Inr True, w2)))"

definition run_describe_cmd :: "project_config \<Rightarrow> string \<Rightarrow> string \<Rightarrow> argv" where
  "run_describe_cmd cfg service_name region =
     [''gcloud'', ''run'', ''services'', ''describe'', service_name, ''--region='' @ region,
      ''--format=json'', ''--project='' @ gcp_project_id cfg]"

text \<open>\<^verbatim>\<open>service_info.get("status", {}).get("url", "")\<close>, then the truth test and the two
  \<^verbatim>\<open>replace\<close> calls (which only strings have).\<close>

definition host_of_service :: "json \<Rightarrow> exn + string option" where
  "host_of_service service_info =
     (case py_get service_info ''status'' (JObj []) of
        Inl e \<Rightarrow> Inl e
      | Inr status \<Rightarrow>
          (case py_get status ''url'' (JStr []) of
             Inl e \<Rightarrow> Inl e
           | Inr url \<Rightarrow>
               if truthy url then
                 (case url of
                    JStr u \<Rightarrow> Inr (Some (remove_all ''http://'' (remove_all ''https://'' u)))
                  | _ \<Rightarrow> Inl AttributeError)
               else Inr None))"

text \<open>\<^verbatim>\<open>get_cloud_run_url\<close>\<close>

definition get_cloud_run_url ::
  "env \<Rightarrow> project_config \<Rightarrow> string \<Rightarrow> string \<Rightarrow> world \<Rightarrow> (exn + string option) \<times> world" where
  "get_cloud_run_url E cfg service_name region w =
     (let (result, w1) = run E (run_describe_cmd cfg service_name region) w in
      if returncode result \<noteq> 0 then (Inr None, w1)
      else
        case json_loads E (stdout result) of
          None \<Rightarrow> (Inr None, w1)
        | Some service_info \<Rightarrow> (host_of_service service_info, w1))"

section \<open>The orchestrators\<close>

definition add_manifest :: "string \<Rightarrow> string \<Rightarrow> oauth_client \<Rightarrow> manifest \<Rightarrow> manifest" where
  "add_manifest path backend_name oc m =
     log_operation ''loadbalancer_add''
       [(''path'', path), (''backend_name'', backend_name),
        (''oauth_client'', display_name oc), (''domain'', DOMAIN)]
       (update_config ''loadbalancer_url'' (Some (''https://'' @ DOMAIN @ path))
         (update_config ''loadbalancer_path'' (Some path)
           (update_state ''loadbalancer_configured'' True m)))"

text \<open>
  The part of \<^verbatim>\<open>add_to_loadbalancer\<close> after the confirmation: steps 1 to 7 and the
  manifest. Step 6 runs only with \<^verbatim>\<open>use_host_rewrite\<close> and has no failure exit.
\<close>

definition provision ::
  "env \<Rightarrow> project_config \<Rightarrow> string \<Rightarrow> string \<Rightarrow> string \<Rightarrow> bool \<Rightarrow>
   world \<Rightarrow> (exn + bool) \<times> world" where
  "provision E cfg path region cloud_run_service use_host_rewrite w0 =
     (let backend_name = project_name cfg @ ''-backend'' in
      case create_serverless_neg E cfg region cloud_run_service w0 of
        (False, w1) \<Rightarrow> (Inr False, w1)
      | (True, w1) \<Rightarrow>
     (case create_iap_oauth_client E cfg w1 of
        (None, w2) \<Rightarrow> (Inr False, w2)
      | (Some oc, w2) \<Rightarrow>
     (case create_security_policy E cfg w2 of
        (False, w3) \<Rightarrow> (Inr False, w3)
      | (True, w3) \<Rightarrow>
     (case create_backend_service E cfg region oc w3 of
        (False, w4) \<Rightarrow> (Inr False, w4)
      | (True, w4) \<Rightarrow>
     (case grant_iap_access E cfg backend_name w4 of
        (False, w5) \<Rightarrow> (Inr False, w5)
      | (True, w5) \<Rightarrow>
     (case (if use_host_rewrite then get_cloud_run_url E cfg cloud_run_service region w5
            else (Inr None, w5)) of
        (Inl e, w6) \<Rightarrow> (Inl e, w6)
      | (Inr cloud_run_url, w6) \<Rightarrow>
     (case add_path_rule E cfg path backend_name cloud_run_url w6 of
        (Inl e, w7) \<Rightarrow> (Inl e, w7)
      | (Inr False, w7) \<Rightarrow> (Inr False, w7)
      | (Inr True, w7) \<Rightarrow>
          (Inr True,
           w7\<lparr>manifest := add_manifest path backend_name oc (manifest w7)\<rparr>))))))))"

text \<open>\<^verbatim>\<open>add_to_loadbalancer\<close>: the defaults, the precondition, the confirmation.\<close>

definition add_to_loadbalancer ::
  "env \<Rightarrow> project_config \<Rightarrow> string option \<Rightarrow> string option \<Rightarrow> string option \<Rightarrow> bool \<Rightarrow>
   world \<Rightarrow> (exn + bool) \<times> world" where
  "add_to_loadbalancer E cfg path_arg region_arg service_arg use_host_rewrite w =
     (let path = str_or_default path_arg (''/'' @ project_name cfg);
          region = str_or_default (str_or region_arg (get_config (manifest w) ''region''))
                     (default_region cfg);
          cloud_run_service = str_or_default service_arg (project_name cfg)
      in
      if get_state (manifest w) ''deployed'' \<noteq> Some True then (Inr False, w)
      else
        case py_input ''Do you want to continue? (y/N): '' w of
          (Inl e, w0) \<Rightarrow> (Inl e, w0)
        | (Inr response, w0) \<Rightarrow>
            if py_lower response \<notin> set [''y'', ''yes''] then (Inr False, w0)
            else provision E cfg path region cloud_run_service use_host_rewrite w0)"

definition neg_delete_cmd :: "project_config \<Rightarrow> string \<Rightarrow> argv" where
  "neg_delete_cmd cfg region =
     [''gcloud'', ''compute'', ''network-endpoint-groups'', ''delete'', project_name cfg @ ''-neg'',
      ''--region='' @ region, ''--quiet'', ''--project='' @ gcp_project_id cfg]"

definition policy_delete_cmd :: "project_config \<Rightarrow> argv" where
  "policy_delete_cmd cfg =
     [''gcloud'', ''compute'', ''security-policies'', ''delete'', policy_name_of cfg,
      ''--quiet'', ''--project='' @ gcp_project_id cfg]"

text \<open>
  The first \<^verbatim>\<open>try\<close> block of \<^verbatim>\<open>remove_from_loadbalancer\<close>, the removal of the path
  rule. Its handler catches CalledProcessError and JSONDecodeError and prints a
  warning (\<open>Inr False\<close>); an exception of the editing leaves the function.
\<close>

definition remove_path_rule ::
  "env \<Rightarrow> project_config \<Rightarrow> string \<Rightarrow> world \<Rightarrow> (exn + bool) \<times> world" where
  "remove_path_rule E cfg path w =
     (let (result, w1) = run E (urlmap_describe_cmd cfg) w in
      if returncode result \<noteq> 0 then (Inr False, w1)
      else
        case json_loads E (stdout result) of
          None \<Rightarrow> (Inr False, w1)
        | Some doc \<Rightarrow>
            (case remove_rule_doc (str_int E) path doc of
               Inl e \<Rightarrow> (Inl e, w1)
             | Inr out \<Rightarrow>
                 let (r, w2) = run E (urlmap_import_cmd cfg) (w1\<lparr>scratch_file := Some out\<rparr>) in
                 if returncode r \<noteq> 0 then (Inr False, w2) else (Inr True, w2)))"

definition remove_manifest :: "string \<Rightarrow> string \<Rightarrow> manifest \<Rightarrow> manifest" where
  "remove_manifest path backend_name m =
     log_operation ''loadbalancer_remove'' [(''path'', path), (''backend_name'', backend_name)]
       (update_config ''loadbalancer_url'' None
         (update_config ''loadbalancer_path'' None
           (update_state ''loadbalancer_configured'' False m)))"

text \<open>The part of \<^verbatim>\<open>remove_from_loadbalancer\<close> after the confirmation: the rule
  removal, the three deletions with \<^verbatim>\<open>check=False\<close>, the manifest.\<close>

definition teardown ::
  "env \<Rightarrow> project_config \<Rightarrow> string \<Rightarrow> string \<Rightarrow> world \<Rightarrow> (exn + bool) \<times> world" where
  "teardown E cfg path region w =
     (case remove_path_rule E cfg path w of
        (Inl e, w1) \<Rightarrow> (Inl e, w1)
      | (Inr removed, w1) \<Rightarrow>
          let (r2, w2) = run E (backend_delete_cmd cfg) w1;
              (r3, w3) = run E (neg_delete_cmd cfg region) w2;
              (r4, w4) = run E (policy_delete_cmd cfg) w3
          in (Inr True,
              w4\<lparr>manifest := remove_manifest path (project_name cfg @ ''-backend'') (manifest w4)\<rparr>))"

text \<open>\<^verbatim>\<open>remove_from_loadbalancer\<close>\<close>

definition remove_from_loadbalancer ::
  "env \<Rightarrow> project_config \<Rightarrow> string option \<Rightarrow> bool \<Rightarrow> world \<Rightarrow> (exn + bool) \<times> world" where
  "remove_from_loadbalancer E cfg path_arg skip_confirmation w =
     (let path = str_or_default (str_or path_arg (get_config (manifest w) ''loadbalancer_path''))
                   (''/'' @ project_name cfg);
          region = str_or_default (get_config (manifest w) ''region'') (default_region cfg)
      in
      if \<not> skip_confirmation then
        (case py_input ''Do you want to continue? (yes/N): '' w of
           (Inl e, w0) \<Rightarrow> (Inl e, w0)
         | (Inr response, w0) \<Rightarrow>
             if py_lower response \<noteq> ''yes'' then (Inr False, w0)
             else teardown E cfg path region w0)
      else teardown E cfg path region w)"

section \<open>What a step may touch\<close>

text \<open>
  \<open>frame w w'\<close>: from \<open>w\<close> to \<open>w'\<close> the manifest, the pending input and the prompts
  are the same, and the commands of \<open>w\<close> are the first commands of \<open>w'\<close>.
\<close>

definition frame :: "world \<Rightarrow> world \<Rightarrow> bool" where
  "frame w w' =
     (manifest w' = manifest w \<and> stdin w' = stdin w \<and> prompts w' = prompts w \<and>
      take (length (calls w)) (calls w') = calls w)"

text \<open>The commands issued between two worlds.\<close>

definition issued :: "world \<Rightarrow> world \<Rightarrow> argv list" where
  "issued w w' = drop (length (calls w)) (calls w')"

section \<open>A concrete project and concrete clouds\<close>

text \<open>
  The project of the end-to-end scenario, and environments to run the model on: a
  cloud in which every command fails, and a cloud in which every command succeeds
  and the three \<^verbatim>\<open>describe\<close> answers that are decoded carry given documents.
\<close>

definition cfg_acme :: project_config where
  "cfg_acme = \<lparr>project_name = ''acme'', gcp_project_id = ''acme-prod'',
                default_region = ''europe-west4''\<rparr>"

definition manifest_deployed :: manifest where
  "manifest_deployed =
     \<lparr>state_flags = [(''deployed'', True)], config_values = [(''region'', Some ''europe-west4'')],
      operation_log = []\<rparr>"

definition manifest_new :: manifest where
  "manifest_new = \<lparr>state_flags = [], config_values = [], operation_log = []\<rparr>"

definition world_of :: "string list \<Rightarrow> manifest \<Rightarrow> world" where
  "world_of lines m =
     \<lparr>calls = [], stdin = lines, prompts = [], scratch_file = None, manifest = m\<rparr>"

definition env_all_fail :: env where
  "env_all_fail =
     \<lparr>cloud = (\<lambda>h. \<lparr>returncode = 1, stdout = [], stderr = ''denied''\<rparr>),
      json_loads = (\<lambda>s. None), str_int = (\<lambda>s. None)\<rparr>"

definition resource_of :: "argv \<Rightarrow> string" where
  "resource_of a = (case a of g # c # r # rest \<Rightarrow> r | _ \<Rightarrow> [])"

definition oauth_output :: string where
  "oauth_output =
     ''name: projects/924389117365/brands/924389117365/identityAwareProxyClients/abc123'' @
     [CHR 0x0A] @ ''secret: s3cr3t'' @ [CHR 0x0A] @ ''displayName: IAP-acme-backend''"

definition env_ok :: "json \<Rightarrow> json \<Rightarrow> env" where
  "env_ok backend_doc urlmap_doc =
     \<lparr>cloud = (\<lambda>h. \<lparr>returncode = 0,
                      stdout = (if h = [] then []
                                else if resource_of (last h) = ''oauth-clients'' then oauth_output
                                else resource_of (last h)),
                      stderr = []\<rparr>),
      json_loads = (\<lambda>s. if s = ''backend-services'' then Some backend_doc
                         else if s = ''url-maps'' then Some urlmap_doc
                         else if s = ''services''
                           then Some (JObj [(''status'', JObj [(''url'', JStr ''https://acme-xyz.a.run.app'')])])
                         else None),
      str_int = (\<lambda>s. if s = ''42'' then Some 42 else None)\<rparr>"

definition backend_adopted :: json where
  "backend_adopted =
     JObj [(''name'', JStr ''acme-backend''),
           (''backends'', JArr [JObj [(''group'', JStr ''acme-neg'')]])]"

definition urlmap_active :: json where
  "urlmap_active =
     JObj [(''kind'', JStr ''compute#urlMap''), (''id'', JStr ''42''),
           (''creationTimestamp'', JStr ''2024-01-01''), (''name'', JStr URL_MAP_NAME),
           (''selfLink'', JStr ''https://www.googleapis.com/compute/v1/x''),
           (''fingerprint'', JStr ''abc=''),
           (''pathMatchers'',
              JArr [JObj [(''name'', JStr ''path-matcher-1''),
                          (''pathRules'',
                             JArr [JObj [(''paths'', JArr [JStr ''/other'', JStr ''/other/*'']),
                                         (''service'', JStr ''other-backend'')]])]])]"


definition urlmap_matcher_selflink :: json where
  "urlmap_matcher_selflink =
     JObj [(''kind'', JStr ''compute#urlMap''), (''selfLink'', JStr ''https://x/urlMaps/m''),
           (''pathMatchers'',
              JArr [JObj [(''name'', JStr ''path-matcher-2''), (''kind'', JStr ''compute#pathMatcher''),
                          (''selfLink'', JStr ''https://x/urlMaps/m/pathMatchers/2'')]])]"

definition urlmap_matcher_selflink_written :: json where
  "urlmap_matcher_selflink_written =
     JObj [(''pathMatchers'',
              JArr [JObj [(''name'', JStr ''path-matcher-2''),
                          (''selfLink'', JStr ''https://x/urlMaps/m/pathMatchers/2'')]])]"

definition backend_poisoned :: json where
  "backend_poisoned =
     JObj [(''name'', JStr ''acme-backend''), (''backends'', JArr []), (''portName'', JStr ''http'')]"

definition backend_empty_port :: json where
  "backend_empty_port =
     JObj [(''name'', JStr ''acme-backend''), (''backends'', JArr []), (''portName'', JStr [])]"

definition rule_acme :: json where
  "rule_acme =
     JObj [(''paths'', JArr [JStr ''/acme'', JStr ''/acme/'', JStr ''/acme/*'']),
           (''service'', JStr ''acme-backend'')]"

definition rule_other :: json where
  "rule_other =
     JObj [(''paths'', JArr [JStr ''/other'', JStr ''/other/*'']),
           (''service'', JStr ''other-backend'')]"

definition matcher_one :: json where
  "matcher_one = JObj [(''name'', JStr ''path-matcher-1''), (''pathRules'', JArr [rule_other, rule_acme])]"

definition matcher_one_cleaned :: json where
  "matcher_one_cleaned = JObj [(''name'', JStr ''path-matcher-1''), (''pathRules'', JArr [rule_other])]"

definition matcher_two :: json where
  "matcher_two = JObj [(''name'', JStr ''path-matcher-2''), (''pathRules'', JArr [rule_acme])]"

definition urlmap_two_matchers :: json where
  "urlmap_two_matchers = JObj [(''pathMatchers'', JArr [matcher_one, matcher_two])]"

definition oauth_acme :: oauth_client where
  "oauth_acme =
     \<lparr>client_id = ''abc123'', client_secret = ''s3cr3t'', display_name = ''IAP-acme-backend''\<rparr>"

section \<open>The shape of a URL-map document\<close>






section \<open>Helper lemmas\<close>

text \<open>The piece after the first separator exists when the separator occurs.\<close>

lemma split_from_nonempty: "split_from sep acc s \<noteq> []"
  by (induction sep acc s rule: split_from.induct) auto

lemma split_from_second:
  "sep \<noteq> [] \<Longrightarrow> contains_str sep s \<Longrightarrow> 1 < length (split_from sep acc s)"
proof (induction sep acc s rule: split_from.induct)
  case (1 sep acc)
  then show ?case by simp
next
  case (2 sep acc c cs)
  show ?case
  proof (cases "startswith (c # cs) sep")
    case True
    then show ?thesis
      using 2(3) split_from_nonempty[of sep "[]" "drop (length sep) (c # cs)"]
      by (cases "split_from sep [] (drop (length sep) (c # cs))") auto
  next
    case False
    then show ?thesis using 2 by auto
  qed
qed

lemma py_split_second:
  "sep \<noteq> [] \<Longrightarrow> contains_str sep s \<Longrightarrow> 1 < length (py_split s sep)"
  using split_from_second[of sep s "[]"] by (simp add: py_split_def)

lemma run_eq: "run E a w = (cloud E (calls w @ [a]), w\<lparr>calls := calls w @ [a]\<rparr>)"
  by (simp add: run_def)

lemma frame_refl: "frame w w"
  by (simp add: frame_def)

lemma frame_trans: "frame w w1 \<Longrightarrow> frame w1 w2 \<Longrightarrow> frame w w2"
  apply (simp add: frame_def)
  by (metis append_eq_conv_conj append.assoc append_take_drop_id)

lemma frame_calls: "frame w (w\<lparr>calls := calls w @ cs\<rparr>)"
  by (simp add: frame_def)

lemma neg_frame: "frame w (snd (create_serverless_neg E cfg r s w))"
  by (simp add: create_serverless_neg_def run_eq Let_def frame_def)

lemma oauth_frame: "frame w (snd (create_iap_oauth_client E cfg w))"
  by (simp add: create_iap_oauth_client_def run_eq Let_def frame_def
      split: prod.splits option.splits list.splits)

lemma policy_frame: "frame w (snd (create_security_policy E cfg w))"
  by (simp add: create_security_policy_def run_eq Let_def frame_def)

lemma fresh_frame: "frame w (snd (create_fresh_backend E cfg r oc w))"
  by (simp add: create_fresh_backend_def run_eq Let_def frame_def)

lemma fresh_frame_after:
  "frame w (snd (create_fresh_backend E cfg r oc (w\<lparr>calls := calls w @ cs\<rparr>)))"
  by (rule frame_trans[OF frame_calls fresh_frame])

lemma backend_frame: "frame w (snd (create_backend_service E cfg r oc w))"
  by (simp add: create_backend_service_def run_eq Let_def frame_calls fresh_frame_after
      split: option.split sum.split bool.split)

lemma grant_eq:
  "grant_iap_access E cfg b w = (True, w\<lparr>calls := calls w @ [iap_binding_cmd cfg b]\<rparr>)"
  by (simp add: grant_iap_access_def run_eq)

lemma url_frame: "frame w (snd (get_cloud_run_url E cfg s r w))"
  by (simp add: get_cloud_run_url_def run_eq Let_def frame_def split: option.splits)

lemma path_frame: "frame w (snd (add_path_rule E cfg p b u w))"
  by (simp add: add_path_rule_def run_eq Let_def frame_def split: option.splits sum.splits)

lemma remove_path_frame: "frame w (snd (remove_path_rule E cfg p w))"
  by (simp add: remove_path_rule_def run_eq Let_def frame_def split: option.splits sum.splits)

text \<open>The last command of a step that reports failure.\<close>

lemma neg_last:
  "create_serverless_neg E cfg r s w = (False, w') \<Longrightarrow> last (calls w') = neg_create_cmd cfg r s"
  by (auto simp add: create_serverless_neg_def run_eq Let_def split: if_splits)

lemma oauth_last:
  "create_iap_oauth_client E cfg w = (x, w') \<Longrightarrow> last (calls w') = oauth_create_cmd cfg"
  by (auto simp add: create_iap_oauth_client_def run_eq Let_def
      split: if_splits prod.splits option.splits list.splits)

lemma policy_last:
  "create_security_policy E cfg w = (False, w') \<Longrightarrow>
   last (calls w') \<in> {policy_create_cmd cfg, policy_rule_cmd cfg}"
  by (auto simp add: create_security_policy_def run_eq Let_def split: if_splits)

lemma fresh_last:
  "last (calls (snd (create_fresh_backend E cfg r oc w))) \<in>
   {backend_create_cmd cfg oc, backend_add_neg_cmd cfg r, backend_update_policy_cmd cfg}"
  by (simp add: create_fresh_backend_def run_eq Let_def)

lemma backend_last_snd:
  "last (calls (snd (create_backend_service E cfg r oc w))) \<in>
   {backend_describe_cmd cfg, backend_delete_cmd cfg, backend_create_cmd cfg oc,
    backend_add_neg_cmd cfg r, backend_update_policy_cmd cfg}"
  using fresh_last[of E cfg r oc]
  by (simp add: create_backend_service_def run_eq Let_def
      split: option.split sum.split bool.split)

lemma backend_last:
  "create_backend_service E cfg r oc w = (x, w') \<Longrightarrow>
   last (calls w') \<in>
   {backend_describe_cmd cfg, backend_delete_cmd cfg, backend_create_cmd cfg oc,
    backend_add_neg_cmd cfg r, backend_update_policy_cmd cfg}"
  using backend_last_snd[of E cfg r oc w] by simp

lemma url_last:
  "get_cloud_run_url E cfg s r w = (x, w') \<Longrightarrow> last (calls w') = run_describe_cmd cfg s r"
  by (auto simp add: get_cloud_run_url_def run_eq Let_def split: if_splits option.splits)

lemma path_last:
  "add_path_rule E cfg p b u w = (x, w') \<Longrightarrow>
   last (calls w') \<in> {urlmap_describe_cmd cfg, urlmap_import_cmd cfg}"
  by (auto simp add: add_path_rule_def run_eq Let_def split: if_splits option.splits sum.splits)

lemma iap_distinct:
  "neg_create_cmd cfg r s \<noteq> iap_binding_cmd cfg b"
  "oauth_create_cmd cfg \<noteq> iap_binding_cmd cfg b"
  "policy_create_cmd cfg \<noteq> iap_binding_cmd cfg b"
  "policy_rule_cmd cfg \<noteq> iap_binding_cmd cfg b"
  "backend_describe_cmd cfg \<noteq> iap_binding_cmd cfg b"
  "backend_delete_cmd cfg \<noteq> iap_binding_cmd cfg b"
  "backend_create_cmd cfg oc \<noteq> iap_binding_cmd cfg b"
  "backend_add_neg_cmd cfg r \<noteq> iap_binding_cmd cfg b"
  "backend_update_policy_cmd cfg \<noteq> iap_binding_cmd cfg b"
  "run_describe_cmd cfg s r \<noteq> iap_binding_cmd cfg b"
  "urlmap_describe_cmd cfg \<noteq> iap_binding_cmd cfg b"
  "urlmap_import_cmd cfg \<noteq> iap_binding_cmd cfg b"
  by (simp_all add: iap_binding_cmd_def neg_create_cmd_def oauth_create_cmd_def
      policy_create_cmd_def policy_rule_cmd_def backend_describe_cmd_def backend_delete_cmd_def
      backend_create_cmd_def backend_add_neg_cmd_def backend_update_policy_cmd_def
      run_describe_cmd_def urlmap_describe_cmd_def urlmap_import_cmd_def)

lemma provision_last:
  assumes "provision E cfg p r s u w0 = (Inr False, w')"
  shows "last (calls w') \<noteq> iap_binding_cmd cfg b"
  using assms
  apply (simp add: provision_def Let_def grant_eq
      split: prod.splits bool.splits option.splits sum.splits if_splits)
  apply (auto dest!: neg_last oauth_last policy_last backend_last path_last url_last
      simp: iap_distinct iap_distinct[symmetric])
  done

text \<open>The commands a step issues, and what the success path writes.\<close>

lemma frameD:
  "frame w w' \<Longrightarrow> manifest w' = manifest w"
  "frame w w' \<Longrightarrow> stdin w' = stdin w"
  "frame w w' \<Longrightarrow> prompts w' = prompts w"
  by (simp_all add: frame_def)

lemma frame_issued: "frame w w' \<Longrightarrow> calls w' = calls w @ issued w w'"
  by (metis append_take_drop_id frame_def issued_def)

lemma issued_trans:
  assumes "frame a b" "frame b c"
  shows "issued a c = issued a b @ issued b c"
proof -
  have "calls c = calls a @ issued a b @ issued b c"
    using frame_issued[OF assms(1)] frame_issued[OF assms(2)] by simp
  then show ?thesis by (metis append_eq_conv_conj issued_def)
qed

lemma issued_self [simp]: "issued w (w\<lparr>calls := calls w @ cs\<rparr>) = cs"
  by (simp add: issued_def)

lemma neg_first:
  "take 1 (issued w (snd (create_serverless_neg E cfg r s w))) = [neg_describe_cmd cfg r]"
  by (simp add: create_serverless_neg_def run_eq Let_def issued_def)

lemma oauth_issued:
  "issued w (snd (create_iap_oauth_client E cfg w)) = [oauth_create_cmd cfg]"
  by (simp add: create_iap_oauth_client_def run_eq Let_def issued_def
      split: prod.splits option.splits list.splits)

lemma policy_first:
  "take 1 (issued w (snd (create_security_policy E cfg w))) = [policy_describe_cmd cfg]"
  by (simp add: create_security_policy_def run_eq Let_def issued_def)

lemma backend_first:
  "take 1 (issued w (snd (create_backend_service E cfg r oc w))) = [backend_describe_cmd cfg]"
proof -
  have "take 1 (issued w w') = [c]" if "frame (w\<lparr>calls := calls w @ c # cs\<rparr>) w'" for w' c cs
  proof -
    have "calls w' = calls w @ c # (cs @ issued (w\<lparr>calls := calls w @ c # cs\<rparr>) w')"
      using frame_issued[OF that] by simp
    then have "issued w w' = c # (cs @ issued (w\<lparr>calls := calls w @ c # cs\<rparr>) w')"
      by (metis append_eq_conv_conj issued_def)
    then show ?thesis by simp
  qed
  then have fresh: "take (Suc 0) (issued w (snd (create_fresh_backend E cfg r oc
                      (w\<lparr>calls := calls w @ c # cs\<rparr>)))) = [c]" for c cs
    using fresh_frame by (metis One_nat_def)
  show ?thesis
    by (simp add: create_backend_service_def run_eq Let_def fresh
      split: option.split sum.split bool.split)
qed

lemma url_issued:
  "issued w (snd (get_cloud_run_url E cfg s r w)) = [run_describe_cmd cfg s r]"
  by (simp add: get_cloud_run_url_def run_eq Let_def issued_def split: option.splits)

lemma path_issued:
  "add_path_rule E cfg p b u w = (Inr True, w') \<Longrightarrow>
   issued w w' = [urlmap_describe_cmd cfg, urlmap_import_cmd cfg]"
  by (auto simp add: add_path_rule_def run_eq Let_def issued_def split: if_splits option.splits sum.splits)

lemma add_manifest_facts:
  "get_state (add_manifest path b oc m) ''loadbalancer_configured'' = Some True"
  "get_config (add_manifest path b oc m) ''loadbalancer_path'' = Some path"
  "get_config (add_manifest path b oc m) ''loadbalancer_url'' = Some (''https://'' @ DOMAIN @ path)"
  "operation_log (add_manifest path b oc m) = operation_log m @
     [(''loadbalancer_add'', [(''path'', path), (''backend_name'', b),
        (''oauth_client'', display_name oc), (''domain'', DOMAIN)])]"
  by (simp_all add: add_manifest_def get_state_def get_config_def update_state_def update_config_def
      log_operation_def update_conv')

lemma oauth_display:
  "create_iap_oauth_client E cfg w = (Some oc, w') \<Longrightarrow> display_name oc = ''IAP-'' @ project_name cfg @ ''-backend''"
  by (auto simp: create_iap_oauth_client_def run_eq Let_def split: if_splits prod.splits option.splits list.splits)

section \<open>The precondition of \<^verbatim>\<open>add_to_loadbalancer\<close>\<close>

text \<open>
  C2. When the manifest flag \<^verbatim>\<open>deployed\<close> is false or absent, \<^verbatim>\<open>add_to_loadbalancer\<close>
  returns failure and leaves the world as it was: no command is issued, the manifest
  is not written, no prompt is shown and no input is read. This holds for every
  value of the optional arguments.
\<close>

theorem add_not_deployed:
  assumes "get_state (manifest w) ''deployed'' \<noteq> Some True"
  shows "add_to_loadbalancer E cfg path_arg region_arg service_arg use_host_rewrite w
         = (Inr False, w)"
  using assms by (simp add: add_to_loadbalancer_def Let_def)

theorem add_not_deployed_witness:
  "get_state (manifest (world_of [''y''] manifest_new)) ''deployed'' \<noteq> Some True \<and>
   add_to_loadbalancer (env_ok backend_adopted urlmap_active) cfg_acme (Some ''/shop'') None None True
     (world_of [''y''] manifest_new) = (Inr False, world_of [''y''] manifest_new)"
proof -
  have h: "get_state (manifest (world_of [''y''] manifest_new)) ''deployed'' \<noteq> Some True"
    by (simp add: world_of_def manifest_new_def get_state_def)
  show ?thesis
    using h add_not_deployed [OF h, of "env_ok backend_adopted urlmap_active" cfg_acme
        "Some ''/shop''" None None True]
    by simp
qed

section \<open>The IAP grant\<close>

text \<open>
  C10. \<^verbatim>\<open>grant_iap_access\<close> returns success whatever the cloud answers to the
  IAM-binding command (the environment \<open>E\<close>, hence the exit code, is arbitrary): it
  issues that one command and nothing else. So the grant is never the step at which
  \<^verbatim>\<open>add_to_loadbalancer\<close> gives up: a run that returns failure after issuing commands
  did not stop at the IAM-binding command.
\<close>

theorem grant_iap_access_never_fails:
  "fst (grant_iap_access E cfg backend_name w) = True \<and>
   snd (grant_iap_access E cfg backend_name w)
     = w\<lparr>calls := calls w @ [iap_binding_cmd cfg backend_name]\<rparr> \<and>
   (\<forall>w'. add_to_loadbalancer E cfg path_arg region_arg service_arg use_host_rewrite w
            = (Inr False, w') \<and> calls w' \<noteq> calls w
        \<longrightarrow> last (calls w') \<noteq> iap_binding_cmd cfg (project_name cfg @ ''-backend''))"
proof -
  have "last (calls w') \<noteq> iap_binding_cmd cfg (project_name cfg @ ''-backend'')"
    if a: "add_to_loadbalancer E cfg path_arg region_arg service_arg use_host_rewrite w
           = (Inr False, w')"
      and c: "calls w' \<noteq> calls w" for w'
  proof -
    from a c obtain p r s w0 where "provision E cfg p r s use_host_rewrite w0 = (Inr False, w')"
      by (auto simp add: add_to_loadbalancer_def Let_def py_input_def
          split: if_splits list.splits)
    from provision_last[OF this] show ?thesis .
  qed
  then show ?thesis by (simp add: grant_eq)
qed

theorem grant_iap_access_never_fails_witness:
  "fst (add_to_loadbalancer env_all_fail cfg_acme None None None True
          (world_of [''y''] manifest_deployed)) = Inr False \<and>
   calls (snd (add_to_loadbalancer env_all_fail cfg_acme None None None True
          (world_of [''y''] manifest_deployed))) \<noteq> calls (world_of [''y''] manifest_deployed) \<and>
   last (calls (snd (add_to_loadbalancer env_all_fail cfg_acme None None None True
          (world_of [''y''] manifest_deployed))))
     \<noteq> iap_binding_cmd cfg_acme (project_name cfg_acme @ ''-backend'')"
proof -
  let ?w = "world_of [''y''] manifest_deployed"
  let ?r = "add_to_loadbalancer env_all_fail cfg_acme None None None True ?w"
  have a: "fst ?r = Inr False" by code_simp
  have c: "calls (snd ?r) \<noteq> calls ?w" by code_simp
  from a have "?r = (Inr False, snd ?r)" by (metis prod.collapse)
  with c grant_iap_access_never_fails [of env_all_fail cfg_acme "''acme-backend''" ?w
      None None None True]
  show ?thesis using a by blast
qed

section \<open>The provisioning sequence\<close>

text \<open>
  C1. A run of \<^verbatim>\<open>add_to_loadbalancer\<close> that passes the precondition and the confirmation
  (the line read, lowercased, is \<^verbatim>\<open>y\<close> or \<^verbatim>\<open>yes\<close>) runs the steps NEG, OAuth client,
  security policy, backend service, IAP grant, Cloud Run host name (only with
  \<^verbatim>\<open>use_host_rewrite\<close>), URL-map path rule, each in the world the previous one
  left. At the first step that reports failure the run returns failure in the world
  that step left, so no later step has run; an exception of the last two steps
  leaves the run the same way. In all these cases the manifest is the one the run
  started with. When every step succeeded the run returns success, the manifest is
  the old one with \<^verbatim>\<open>loadbalancer_configured\<close> true, \<^verbatim>\<open>loadbalancer_path\<close> the resolved
  path, \<^verbatim>\<open>loadbalancer_url\<close> \<^verbatim>\<open>https://\<close> + DOMAIN + path and one more log entry with
  path, backend name, OAuth display name and domain; and the commands issued are, in
  this order, those of the NEG step (the first being its probe), the OAuth client
  creation, those of the policy step, those of the backend step, the IAM binding, the
  Cloud Run describe (if asked for), the URL-map describe and import.
\<close>

theorem add_to_loadbalancer_steps:
  fixes E :: env and cfg :: project_config and w :: world
    and path_arg region_arg service_arg :: "string option" and use_host_rewrite :: bool
    and path region service backend_name :: string and w0 :: world and res :: "(exn + bool) \<times> world"
  assumes dep: "get_state (manifest w) ''deployed'' = Some True"
    and inp: "stdin w = l # ls" and yes: "py_lower l \<in> set [''y'', ''yes'']"
  defines "path \<equiv> str_or_default path_arg (''/'' @ project_name cfg)"
    and "region \<equiv> str_or_default (str_or region_arg (get_config (manifest w) ''region'')) (default_region cfg)"
    and "service \<equiv> str_or_default service_arg (project_name cfg)"
    and "backend_name \<equiv> project_name cfg @ ''-backend''"
    and "w0 \<equiv> w\<lparr>stdin := ls, prompts := prompts w @ [''Do you want to continue? (y/N): '']\<rparr>"
    and "res \<equiv> add_to_loadbalancer E cfg path_arg region_arg service_arg use_host_rewrite w"
  shows
   "(case create_serverless_neg E cfg region service w0 of
       (False, w1) \<Rightarrow> res = (Inr False, w1) \<and> manifest w1 = manifest w
     | (True, w1) \<Rightarrow>
    (case create_iap_oauth_client E cfg w1 of
       (None, w2) \<Rightarrow> res = (Inr False, w2) \<and> manifest w2 = manifest w
     | (Some oc, w2) \<Rightarrow>
    (case create_security_policy E cfg w2 of
       (False, w3) \<Rightarrow> res = (Inr False, w3) \<and> manifest w3 = manifest w
     | (True, w3) \<Rightarrow>
    (case create_backend_service E cfg region oc w3 of
       (False, w4) \<Rightarrow> res = (Inr False, w4) \<and> manifest w4 = manifest w
     | (True, w4) \<Rightarrow>
    (case grant_iap_access E cfg backend_name w4 of
       (granted, w5) \<Rightarrow> granted \<and>
    (case (if use_host_rewrite then get_cloud_run_url E cfg service region w5 else (Inr None, w5)) of
       (Inl e, w6) \<Rightarrow> res = (Inl e, w6) \<and> manifest w6 = manifest w
     | (Inr url, w6) \<Rightarrow>
    (case add_path_rule E cfg path backend_name url w6 of
       (Inl e, w7) \<Rightarrow> res = (Inl e, w7) \<and> manifest w7 = manifest w
     | (Inr False, w7) \<Rightarrow> res = (Inr False, w7) \<and> manifest w7 = manifest w
     | (Inr True, w7) \<Rightarrow>
         res = (Inr True, w7\<lparr>manifest := add_manifest path backend_name oc (manifest w)\<rparr>)
         \<and> get_state (manifest (snd res)) ''loadbalancer_configured'' = Some True
         \<and> get_config (manifest (snd res)) ''loadbalancer_path'' = Some path
         \<and> get_config (manifest (snd res)) ''loadbalancer_url'' = Some (''https://'' @ DOMAIN @ path)
         \<and> operation_log (manifest (snd res)) = operation_log (manifest w) @
             [(''loadbalancer_add'', [(''path'', path), (''backend_name'', backend_name),
               (''oauth_client'', ''IAP-'' @ project_name cfg @ ''-backend''), (''domain'', DOMAIN)])]
         \<and> issued w (snd res) =
             issued w0 w1 @ [oauth_create_cmd cfg] @ issued w2 w3 @ issued w3 w4 @
             [iap_binding_cmd cfg backend_name] @
             (if use_host_rewrite then [run_describe_cmd cfg service region] else []) @
             [urlmap_describe_cmd cfg, urlmap_import_cmd cfg]
         \<and> take 1 (issued w0 w1) = [neg_describe_cmd cfg region]
         \<and> take 1 (issued w2 w3) = [policy_describe_cmd cfg]
         \<and> take 1 (issued w3 w4) = [backend_describe_cmd cfg])))))))"
proof -
  have res: "res = provision E cfg path region service use_host_rewrite w0"
    using dep inp yes
    by (auto simp add: res_def add_to_loadbalancer_def Let_def py_input_def path_def region_def
        service_def w0_def)
  have m0: "manifest w0 = manifest w" by (simp add: w0_def)
  have c0: "issued w x = issued w0 x" for x by (simp add: issued_def w0_def)
  obtain r1 w1 where n: "create_serverless_neg E cfg region service w0 = (r1, w1)"
    by (cases "create_serverless_neg E cfg region service w0")
  have f1: "frame w0 w1" using neg_frame[of w0 E cfg region service] n by simp
  have i1: "take 1 (issued w0 w1) = [neg_describe_cmd cfg region]"
    using neg_first[of w0 E cfg region service] n by simp
  have m1: "manifest w1 = manifest w" using f1 m0 by (simp add: frame_def)
  show ?thesis
  proof (cases r1)
    case False
    then show ?thesis using n m1 by (simp add: res provision_def)
  next
    case r1: True
    obtain r2 w2 where o: "create_iap_oauth_client E cfg w1 = (r2, w2)"
      by (cases "create_iap_oauth_client E cfg w1")
    have f2: "frame w1 w2" using oauth_frame[of w1 E cfg] o by simp
    have i2: "issued w1 w2 = [oauth_create_cmd cfg]" using oauth_issued[of w1 E cfg] o by simp
    have m2: "manifest w2 = manifest w" using f2 m1 by (simp add: frame_def)
    show ?thesis
    proof (cases r2)
      case None
      then show ?thesis using n r1 o m2 by (simp add: res provision_def)
    next
      case r2: (Some oc)
      have dn: "display_name oc = ''IAP-'' @ project_name cfg @ ''-backend''"
        using oauth_display o r2 by blast
      obtain r3 w3 where p: "create_security_policy E cfg w2 = (r3, w3)"
        by (cases "create_security_policy E cfg w2")
      have f3: "frame w2 w3" using policy_frame[of w2 E cfg] p by simp
      have i3: "take 1 (issued w2 w3) = [policy_describe_cmd cfg]"
        using policy_first[of w2 E cfg] p by simp
      have m3: "manifest w3 = manifest w" using f3 m2 by (simp add: frame_def)
      show ?thesis
      proof (cases r3)
        case False
        then show ?thesis using n r1 o r2 p m3 by (simp add: res provision_def)
      next
        case r3: True
        obtain r4 w4 where b: "create_backend_service E cfg region oc w3 = (r4, w4)"
          by (cases "create_backend_service E cfg region oc w3")
        have f4: "frame w3 w4" using backend_frame[of w3 E cfg region oc] b by simp
        have i4: "take 1 (issued w3 w4) = [backend_describe_cmd cfg]"
          using backend_first[of w3 E cfg region oc] b by simp
        have m4: "manifest w4 = manifest w" using f4 m3 by (simp add: frame_def)
        show ?thesis
        proof (cases r4)
          case False
          then show ?thesis using n r1 o r2 p r3 b m4 by (simp add: res provision_def)
        next
          case r4: True
          define w5 where "w5 = w4\<lparr>calls := calls w4 @ [iap_binding_cmd cfg backend_name]\<rparr>"
          have g: "grant_iap_access E cfg backend_name w4 = (True, w5)"
            unfolding w5_def by (rule grant_eq)
          have f5: "frame w4 w5" unfolding w5_def by (rule frame_calls)
          have i5: "issued w4 w5 = [iap_binding_cmd cfg backend_name]"
            unfolding w5_def by (rule issued_self)
          have m5: "manifest w5 = manifest w" using m4 by (simp add: w5_def)
          obtain r6 w6 where u: "(if use_host_rewrite then get_cloud_run_url E cfg service region w5
                                  else (Inr None, w5)) = (r6, w6)"
            by (cases "if use_host_rewrite then get_cloud_run_url E cfg service region w5
                       else (Inr None, w5)")
          have f6: "frame w5 w6 \<and> issued w5 w6 =
               (if use_host_rewrite then [run_describe_cmd cfg service region] else [])"
          proof (cases use_host_rewrite)
            case True
            with u have "w6 = snd (get_cloud_run_url E cfg service region w5)" by simp
            then show ?thesis
              using url_frame[of w5 E cfg service region] url_issued[of w5 E cfg service region] True
              by simp
          next
            case False
            with u show ?thesis by (auto simp: frame_refl issued_def)
          qed
          have m6: "manifest w6 = manifest w" using f6 m5 by (simp add: frame_def)
          have head: "res = (case r6 of Inl e \<Rightarrow> (Inl e, w6)
               | Inr url \<Rightarrow> (case add_path_rule E cfg path backend_name url w6 of
                   (Inl e, w7) \<Rightarrow> (Inl e, w7)
                 | (Inr False, w7) \<Rightarrow> (Inr False, w7)
                 | (Inr True, w7) \<Rightarrow> (Inr True, w7\<lparr>manifest := add_manifest path backend_name oc (manifest w7)\<rparr>)))"
            unfolding res provision_def Let_def backend_name_def[symmetric]
            using n r1 o r2 p r3 b r4 g u by simp
          show ?thesis
          proof (cases r6)
            case (Inl e)
            then show ?thesis using n r1 o r2 p r3 b r4 g u m6 head by simp
          next
            case r6: (Inr url)
            obtain r7 w7 where a: "add_path_rule E cfg path backend_name url w6 = (r7, w7)"
              by (cases "add_path_rule E cfg path backend_name url w6")
            have f7: "frame w6 w7" using path_frame[of w6 E cfg path backend_name url] a by simp
            have m7: "manifest w7 = manifest w" using f7 m6 by (simp add: frame_def)
            show ?thesis
            proof (cases r7)
              case (Inl e)
              then show ?thesis using n r1 o r2 p r3 b r4 g u r6 a m7 head by simp
            next
              case (Inr ok)
              show ?thesis
              proof (cases ok)
                case False
                then show ?thesis using Inr n r1 o r2 p r3 b r4 g u r6 a m7 head by simp
              next
                case True
                have i7: "issued w6 w7 = [urlmap_describe_cmd cfg, urlmap_import_cmd cfg]"
                  using path_issued[of E cfg path backend_name url w6 w7] a Inr True by simp
                note F2 = frame_trans[OF f1 f2]
                note F3 = frame_trans[OF F2 f3]
                note F4 = frame_trans[OF F3 f4]
                note F5 = frame_trans[OF F4 f5]
                note F6 = frame_trans[OF F5 conjunct1[OF f6]]
                have "issued w0 w7 = issued w0 w1 @ issued w1 w2 @ issued w2 w3 @ issued w3 w4 @
                        issued w4 w5 @ issued w5 w6 @ issued w6 w7"
                  by (simp only: issued_trans[OF F6 f7] issued_trans[OF F5 conjunct1[OF f6]]
                      issued_trans[OF F4 f5] issued_trans[OF F3 f4] issued_trans[OF F2 f3]
                      issued_trans[OF f1 f2] append_assoc)
                then have ord: "issued w (w7\<lparr>manifest := add_manifest path backend_name oc (manifest w)\<rparr>) =
                    issued w0 w1 @ [oauth_create_cmd cfg] @ issued w2 w3 @ issued w3 w4 @
                    [iap_binding_cmd cfg backend_name] @
                    (if use_host_rewrite then [run_describe_cmd cfg service region] else []) @
                    [urlmap_describe_cmd cfg, urlmap_import_cmd cfg]"
                  using i2 i5 i7 f6 by (simp add: issued_def w0_def)
                have r: "res = (Inr True, w7\<lparr>manifest := add_manifest path backend_name oc (manifest w)\<rparr>)"
                  using Inr True a r6 m7 head by simp
                show ?thesis
                  using n r1 o r2 p r3 b r4 g u r6 a Inr True
                  by (simp add: r ord i1 i3 i4 add_manifest_facts dn del: One_nat_def)
              qed
            qed
          qed
        qed
      qed
    qed
  qed
qed

theorem add_to_loadbalancer_steps_witness:
  "get_state (manifest (world_of [''y''] manifest_deployed)) ''deployed'' = Some True \<and>
   stdin (world_of [''y''] manifest_deployed) = [''y''] \<and>
   py_lower ''y'' \<in> set [''y'', ''yes''] \<and>
   fst (add_to_loadbalancer (env_ok backend_adopted urlmap_active) cfg_acme None None None True
          (world_of [''y''] manifest_deployed)) = Inr True \<and>
   get_state (manifest (snd (add_to_loadbalancer (env_ok backend_adopted urlmap_active) cfg_acme
          None None None True (world_of [''y''] manifest_deployed)))) ''loadbalancer_configured''
     = Some True"
proof -
  let ?E = "env_ok backend_adopted urlmap_active"
  let ?w = "world_of [''y''] manifest_deployed"
  let ?v = "?w\<lparr>stdin := [], prompts := prompts ?w @ [''Do you want to continue? (y/N): '']\<rparr>"
  have h1: "get_state (manifest ?w) ''deployed'' = Some True" by code_simp
  have h2: "stdin ?w = ''y'' # []" by code_simp
  have h3: "py_lower ''y'' \<in> set [''y'', ''yes'']" by code_simp
  have R: "str_or_default (str_or None (get_config (manifest ?w) ''region'')) (default_region cfg_acme) = ''europe-west4''"
    by code_simp
  have S: "str_or_default None (project_name cfg_acme) = ''acme''" by code_simp
  have P: "str_or_default None (''/'' @ project_name cfg_acme) = ''/acme''" by code_simp
  have B: "project_name cfg_acme @ ''-backend'' = ''acme-backend''" by code_simp
  define X1 where "X1 = create_serverless_neg ?E cfg_acme ''europe-west4'' ''acme'' ?v"
  have e1: "fst X1 = True" unfolding X1_def by code_simp
  define X2 where "X2 = create_iap_oauth_client ?E cfg_acme (snd X1)"
  define oc where "oc = \<lparr>client_id = ''abc123'', client_secret = ''s3cr3t'', display_name = ''IAP-acme-backend''\<rparr>"
  have e2: "fst X2 = Some oc" unfolding X2_def X1_def oc_def by code_simp
  define X3 where "X3 = create_security_policy ?E cfg_acme (snd X2)"
  have e3: "fst X3 = True" unfolding X3_def X2_def X1_def by code_simp
  define X4 where "X4 = create_backend_service ?E cfg_acme ''europe-west4'' oc (snd X3)"
  have e4: "fst X4 = True" unfolding X4_def X3_def X2_def X1_def oc_def by code_simp
  define X5 where "X5 = grant_iap_access ?E cfg_acme ''acme-backend'' (snd X4)"
  define X6 where "X6 = get_cloud_run_url ?E cfg_acme ''acme'' ''europe-west4'' (snd X5)"
  have e6: "fst X6 = Inr (Some ''acme-xyz.a.run.app'')"
    unfolding X6_def X5_def X4_def X3_def X2_def X1_def oc_def by code_simp
  define X7 where "X7 = add_path_rule ?E cfg_acme ''/acme'' ''acme-backend'' (Some ''acme-xyz.a.run.app'') (snd X6)"
  have e7: "fst X7 = Inr True"
    unfolding X7_def X6_def X5_def X4_def X3_def X2_def X1_def oc_def by code_simp
  note T = add_to_loadbalancer_steps [OF h1 h2 h3, of ?E cfg_acme None None None True, unfolded R S P B]
  have "fst (add_to_loadbalancer ?E cfg_acme None None None True ?w) = Inr True \<and>
        get_state (manifest (snd (add_to_loadbalancer ?E cfg_acme None None None True ?w))) ''loadbalancer_configured'' = Some True"
    using T e1 e2 e3 e4 e6 e7
    by (simp add: case_prod_beta X1_def[symmetric] X2_def[symmetric] X3_def[symmetric]
        X4_def[symmetric] X5_def[symmetric] X6_def[symmetric] X7_def[symmetric]
        add_manifest_facts)
  with h1 h2 h3 show ?thesis by simp
qed


section \<open>Lemmas on the URL-map editing\<close>


lemma any_startswith_map:
  "any_startswith path (map JStr ss) = Inr (\<exists>s\<in>set ss. startswith s path)"
  by (induction ss) auto



lemma filter_rules_eq:
  "filter_rules path rs = Inr rs' \<Longrightarrow> rs' = filter (\<lambda>r. rule_matches path r \<noteq> Inr True) rs"
proof (induction rs arbitrary: rs')
  case Nil then show ?case by simp
next
  case (Cons r rs)
  then show ?case by (auto split: sum.splits if_splits)
qed

lemma convert_id_lookup:
  assumes "convert_id si kv = Inr kv'"
  shows "map_of kv' k =
     (if k = ''id''
      then (case map_of kv ''id'' of None \<Rightarrow> None
            | Some v \<Rightarrow> (case py_int si v of Inr n \<Rightarrow> Some (JInt n) | Inl e \<Rightarrow> None))
      else map_of kv k)"
  using assms
  by (auto simp: convert_id_def update_conv' delete_conv' split: option.splits sum.splits exn.splits)

lemma fold_delete_lookup:
  "map_of (fold AList.delete ks al) k = (if k \<in> set ks then None else map_of al k)"
  by (induction ks arbitrary: al) (auto simp: delete_conv')

lemma store_matchers_lookup:
  "map_of (store_matchers kv ms) k =
     (if k = ''pathMatchers''
      then (case map_of kv ''pathMatchers'' of Some (JArr old) \<Rightarrow> Some (JArr ms) | x \<Rightarrow> x)
      else map_of kv k)"
  by (auto simp: store_matchers_def update_conv' split: option.splits json.splits)

lemma strip_kind_obj:
  "strip_kind m = Inr m' \<Longrightarrow> m' = JObj mkv \<Longrightarrow> map_of mkv ''kind'' = None"
  by (cases m) (auto simp: delete_conv' split: sum.splits bool.splits if_splits)

lemma strip_matchers_kind:
  "strip_matchers ms = Inr ms' \<Longrightarrow> m \<in> set ms' \<Longrightarrow> m = JObj mkv \<Longrightarrow> map_of mkv ''kind'' = None"
proof (induction ms arbitrary: ms')
  case Nil then show ?case by simp
next
  case (Cons a ms)
  then show ?case by (auto split: sum.splits dest: strip_kind_obj)
qed

lemma matchers_of_JArr:
  "map_of kv ''pathMatchers'' = Some (JArr ms) \<Longrightarrow> matchers_of kv = Inr ms"
  by (simp add: matchers_of_def)

lemma strip_output_only_spec:
  assumes "strip_output_only si kv = Inr out"
  shows "(\<forall>f\<in>set OUTPUT_ONLY. map_of out f = None)"
    and "map_of out ''id'' =
           (case map_of kv ''id'' of None \<Rightarrow> None
            | Some v \<Rightarrow> (case py_int si v of Inr n \<Rightarrow> Some (JInt n) | Inl e \<Rightarrow> None))"
    and "\<And>ms m mkv. map_of out ''pathMatchers'' = Some (JArr ms) \<Longrightarrow> m \<in> set ms \<Longrightarrow> m = JObj mkv
           \<Longrightarrow> map_of mkv ''kind'' = None"
proof -
  from assms obtain m1 ms0 ms' where
    c: "convert_id si kv = Inr m1"
    and mo: "matchers_of (fold AList.delete OUTPUT_ONLY m1) = Inr ms0"
    and sm: "strip_matchers ms0 = Inr ms'"
    and out: "out = store_matchers (fold AList.delete OUTPUT_ONLY m1) ms'"
    by (auto simp: strip_output_only_def Let_def split: sum.splits)
  have notin: "''pathMatchers'' \<notin> set OUTPUT_ONLY" "''id'' \<notin> set OUTPUT_ONLY"
    by (simp_all add: OUTPUT_ONLY_def)
  show "\<forall>f\<in>set OUTPUT_ONLY. map_of out f = None"
    using notin(1) by (auto simp: out store_matchers_lookup fold_delete_lookup)
  show "map_of out ''id'' =
           (case map_of kv ''id'' of None \<Rightarrow> None
            | Some v \<Rightarrow> (case py_int si v of Inr n \<Rightarrow> Some (JInt n) | Inl e \<Rightarrow> None))"
    using notin(2)
    by (simp add: out store_matchers_lookup fold_delete_lookup convert_id_lookup[OF c])
  show "map_of mkv ''kind'' = None"
    if a: "map_of out ''pathMatchers'' = Some (JArr ms)" and b: "m \<in> set ms" "m = JObj mkv" for ms m mkv
  proof -
    from a have "ms = ms'"
      by (auto simp: out store_matchers_lookup split: option.splits json.splits)
    with sm b show ?thesis using strip_matchers_kind by blast
  qed
qed

lemma written_doc_spec:
  assumes "add_rule_doc si rule doc = Inr out \<or> remove_rule_doc si path doc = Inr out"
  shows "\<exists>kv okv. doc = JObj kv \<and> out = JObj okv \<and>
           (\<forall>f\<in>set OUTPUT_ONLY. map_of okv f = None) \<and>
           (\<forall>ms. map_of okv ''pathMatchers'' = Some (JArr ms) \<longrightarrow>
              (\<forall>m\<in>set ms. \<forall>mkv. m = JObj mkv \<longrightarrow> map_of mkv ''kind'' = None)) \<and>
           map_of okv ''id'' =
             (case map_of kv ''id'' of None \<Rightarrow> None
              | Some v \<Rightarrow> (case py_int si v of Inr n \<Rightarrow> Some (JInt n) | Inl e \<Rightarrow> None))"
proof -
  from assms obtain kv ms1 okv where d: "doc = JObj kv" and o: "out = JObj okv"
    and s: "strip_output_only si (store_matchers kv ms1) = Inr okv"
    by (auto simp: add_rule_doc_def remove_rule_doc_def split: json.splits sum.splits)
  have id: "map_of (store_matchers kv ms1) ''id'' = map_of kv ''id''"
    by (simp add: store_matchers_lookup)
  show ?thesis
    using strip_output_only_spec[OF s] d o id by auto
qed





lemma add_path_rule_written:
  assumes "add_path_rule E cfg p b u w = (r, w')"
    and "issued w w' = [urlmap_describe_cmd cfg, urlmap_import_cmd cfg]"
  shows "\<exists>doc out. json_loads E (stdout (cloud E (calls w @ [urlmap_describe_cmd cfg]))) = Some doc \<and>
           add_rule_doc (str_int E) (new_rule cfg p b u) doc = Inr out \<and> scratch_file w' = Some out"
  using assms
  by (auto simp: add_path_rule_def run_eq Let_def issued_def split: if_splits option.splits sum.splits)

lemma remove_path_rule_written:
  assumes "remove_path_rule E cfg p w = (r, w')"
    and "issued w w' = [urlmap_describe_cmd cfg, urlmap_import_cmd cfg]"
  shows "\<exists>doc out. json_loads E (stdout (cloud E (calls w @ [urlmap_describe_cmd cfg]))) = Some doc \<and>
           remove_rule_doc (str_int E) p doc = Inr out \<and> scratch_file w' = Some out"
  using assms
  by (auto simp: remove_path_rule_def run_eq Let_def issued_def split: if_splits option.splits sum.splits)

section \<open>Output-only fields\<close>

text \<open>
  C7 (amended). Whenever \<^verbatim>\<open>add_path_rule\<close> or the rule removal of
  \<^verbatim>\<open>remove_from_loadbalancer\<close> gets as far as the import, the fetched text decoded to an
  object, and the document in the scratch file is an object that has none of
  \<^verbatim>\<open>creationTimestamp\<close>, \<^verbatim>\<open>selfLink\<close>, \<^verbatim>\<open>fingerprint\<close>, \<^verbatim>\<open>kind\<close> at the top level,
  no \<^verbatim>\<open>kind\<close> in any path matcher that is an object, and whose \<^verbatim>\<open>id\<close> is the integer
  \<^verbatim>\<open>int(id)\<close> when the fetched document had an \<^verbatim>\<open>id\<close> that \<^verbatim>\<open>int\<close> converts, and is
  absent otherwise. Inside a path matcher only \<^verbatim>\<open>kind\<close> is removed: the
  counterexample keeps a \<^verbatim>\<open>selfLink\<close> there.
\<close>

theorem written_document_fields:
  assumes "add_path_rule E cfg path backend_name url w = (r, w') \<or>
           remove_path_rule E cfg path w = (r, w')"
    and "issued w w' = [urlmap_describe_cmd cfg, urlmap_import_cmd cfg]"
  shows "\<exists>kv okv.
           json_loads E (stdout (cloud E (calls w @ [urlmap_describe_cmd cfg]))) = Some (JObj kv) \<and>
           scratch_file w' = Some (JObj okv) \<and>
           (\<forall>f\<in>set OUTPUT_ONLY. map_of okv f = None) \<and>
           (\<forall>ms. map_of okv ''pathMatchers'' = Some (JArr ms) \<longrightarrow>
              (\<forall>m\<in>set ms. \<forall>mkv. m = JObj mkv \<longrightarrow> map_of mkv ''kind'' = None)) \<and>
           map_of okv ''id'' =
             (case map_of kv ''id'' of None \<Rightarrow> None
              | Some v \<Rightarrow> (case py_int (str_int E) v of Inr n \<Rightarrow> Some (JInt n) | Inl e \<Rightarrow> None))"
proof -
  from assms obtain doc out rule where
    l: "json_loads E (stdout (cloud E (calls w @ [urlmap_describe_cmd cfg]))) = Some doc"
    and s: "scratch_file w' = Some out"
    and e: "add_rule_doc (str_int E) rule doc = Inr out \<or> remove_rule_doc (str_int E) path doc = Inr out"
    using add_path_rule_written remove_path_rule_written by metis
  from written_doc_spec[OF e] l s show ?thesis by auto
qed

theorem written_document_fields_witness:
  "issued (world_of [] manifest_deployed)
     (snd (add_path_rule (env_ok backend_adopted urlmap_active) cfg_acme ''/acme'' ''acme-backend'' None
            (world_of [] manifest_deployed)))
     = [urlmap_describe_cmd cfg_acme, urlmap_import_cmd cfg_acme] \<and>
   (\<exists>okv. scratch_file (snd (add_path_rule (env_ok backend_adopted urlmap_active) cfg_acme ''/acme''
                        ''acme-backend'' None (world_of [] manifest_deployed))) = Some (JObj okv) \<and>
          map_of okv ''kind'' = None \<and> map_of okv ''id'' = Some (JInt 42))"
proof -
  let ?E = "env_ok backend_adopted urlmap_active"
  let ?w = "world_of [] manifest_deployed"
  let ?r = "add_path_rule ?E cfg_acme ''/acme'' ''acme-backend'' None ?w"
  have i: "issued ?w (snd ?r) = [urlmap_describe_cmd cfg_acme, urlmap_import_cmd cfg_acme]"
    by code_simp
  have a: "?r = (fst ?r, snd ?r) \<or> remove_path_rule ?E cfg_acme ''/acme'' ?w = (fst ?r, snd ?r)"
    by simp
  have k: "''kind'' \<in> set OUTPUT_ONLY" by (simp add: OUTPUT_ONLY_def)
  have l: "json_loads ?E (stdout (cloud ?E (calls ?w @ [urlmap_describe_cmd cfg_acme]))) = Some urlmap_active"
    by code_simp
  have d: "urlmap_active = JObj kv \<Longrightarrow> map_of kv ''id'' = Some (JStr ''42'')" for kv
    by (auto simp: urlmap_active_def)
  have p: "py_int (str_int ?E) (JStr ''42'') = Inr 42" by (simp add: env_ok_def)
  from written_document_fields [OF a i] k l d p
  have "\<exists>okv. scratch_file (snd ?r) = Some (JObj okv) \<and>
          map_of okv ''kind'' = None \<and> map_of okv ''id'' = Some (JInt 42)"
    by fastforce
  with i show ?thesis by blast
qed

theorem written_document_fields_counterexample:
  "scratch_file (snd (add_path_rule (env_ok backend_adopted urlmap_matcher_selflink) cfg_acme ''/acme''
                        ''acme-backend'' None (world_of [] manifest_deployed)))
     = Some urlmap_matcher_selflink_written \<and>
   scratch_file (snd (remove_path_rule (env_ok backend_adopted urlmap_matcher_selflink) cfg_acme ''/acme''
                        (world_of [] manifest_deployed)))
     = Some urlmap_matcher_selflink_written \<and>
   urlmap_matcher_selflink_written =
     JObj [(''pathMatchers'',
              JArr [JObj [(''name'', JStr ''path-matcher-2''),
                          (''selfLink'', JStr ''https://x/urlMaps/m/pathMatchers/2'')]])]"
  by code_simp


lemma rule_matches_strs:
  "map_of kv ''paths'' = Some (JArr (map JStr ps)) \<Longrightarrow>
   rule_matches path (JObj kv) = Inr (\<exists>p\<in>set ps. startswith p path)"
  by (simp add: rule_matches_def any_startswith_map)




section \<open>Which rules the removal takes out\<close>

text \<open>
  C3 (amended). The rule-removal loop of \<^verbatim>\<open>remove_from_loadbalancer\<close>, when it raises
  nothing, returns the matchers position by position: a matcher named
  \<^verbatim>\<open>path-matcher-1\<close> that has \<^verbatim>\<open>pathRules\<close> keeps exactly the rules none of whose paths
  starts with the prefix, in their order (all its other fields are untouched); every
  matcher with another name is returned as it is, whatever its rules. For a rule
  whose \<^verbatim>\<open>paths\<close> is a list of strings, "has a matching path" means that one of the
  strings starts with the prefix.
\<close>

theorem remove_rule_scope:
  assumes "remove_rule_loop path ms = Inr ms'"
  shows "list_all2
           (\<lambda>m m'. \<exists>kv. m = JObj kv \<and>
              (if map_of kv ''name'' = Some (JStr PATH_MATCHER)
               then (case map_of kv ''pathRules'' of
                       None \<Rightarrow> m' = m
                     | Some v \<Rightarrow>
                         \<exists>rules. py_iter v = Inr rules \<and>
                           m' = JObj (AList.update ''pathRules''
                                  (JArr (filter (\<lambda>r. rule_matches path r \<noteq> Inr True) rules)) kv))
               else m' = m))
           ms ms' \<and>
         (\<forall>kv ps. map_of kv ''paths'' = Some (JArr (map JStr ps)) \<longrightarrow>
            rule_matches path (JObj kv) = Inr (\<exists>p\<in>set ps. startswith p path))"
proof -
  have "list_all2
           (\<lambda>m m'. \<exists>kv. m = JObj kv \<and>
              (if map_of kv ''name'' = Some (JStr PATH_MATCHER)
               then (case map_of kv ''pathRules'' of
                       None \<Rightarrow> m' = m
                     | Some v \<Rightarrow>
                         \<exists>rules. py_iter v = Inr rules \<and>
                           m' = JObj (AList.update ''pathRules''
                                  (JArr (filter (\<lambda>r. rule_matches path r \<noteq> Inr True) rules)) kv))
               else m' = m))
           ms ms'"
    using assms
  proof (induction ms arbitrary: ms')
    case Nil
    then show ?case by simp
  next
    case (Cons m ms)
    from Cons.prems obtain kv where m: "m = JObj kv" by (cases m) auto
    from Cons.prems m obtain n where n: "map_of kv ''name'' = Some n"
      by (auto split: option.splits)
    from Cons.prems m n obtain m1 ms1 where
      r: "remove_rule_loop path ms = Inr ms1" and ms': "ms' = m1 # ms1"
      and h: "(if n = JStr PATH_MATCHER
               then (case map_of kv ''pathRules'' of
                       None \<Rightarrow> Inr (JObj kv)
                     | Some v \<Rightarrow>
                         (case py_iter v of
                            Inl e \<Rightarrow> Inl e
                          | Inr rules \<Rightarrow>
                              (case filter_rules path rules of
                                 Inl e \<Rightarrow> Inl e
                               | Inr rules' \<Rightarrow>
                                   Inr (JObj (AList.update ''pathRules'' (JArr rules') kv)))))
               else Inr (JObj kv)) = Inr m1"
      by (auto split: sum.splits)
    have "\<exists>kv. m = JObj kv \<and>
              (if map_of kv ''name'' = Some (JStr PATH_MATCHER)
               then (case map_of kv ''pathRules'' of
                       None \<Rightarrow> m1 = m
                     | Some v \<Rightarrow>
                         \<exists>rules. py_iter v = Inr rules \<and>
                           m1 = JObj (AList.update ''pathRules''
                                  (JArr (filter (\<lambda>r. rule_matches path r \<noteq> Inr True) rules)) kv))
               else m1 = m)"
      using h m n
      by (auto split: if_splits option.splits sum.splits dest: filter_rules_eq)
    then show ?case using Cons.IH[OF r] ms' by simp
  qed
  then show ?thesis using rule_matches_strs by blast
qed

theorem remove_rule_scope_witness:
  "remove_rule_loop ''/acme'' [matcher_one, matcher_two] = Inr [matcher_one_cleaned, matcher_two] \<and>
   list_all2 (\<lambda>m m'. \<exists>kv. m = JObj kv) [matcher_one, matcher_two] [matcher_one_cleaned, matcher_two]"
proof -
  have h: "remove_rule_loop ''/acme'' [matcher_one, matcher_two] = Inr [matcher_one_cleaned, matcher_two]"
    by code_simp
  from remove_rule_scope [OF h]
  have "list_all2 (\<lambda>m m'. \<exists>kv. m = JObj kv) [matcher_one, matcher_two] [matcher_one_cleaned, matcher_two]"
    by (rule conjunct1 [THEN list_all2_mono]) blast
  with h show ?thesis by simp
qed

theorem remove_rule_scope_counterexample:
  "remove_rule_doc (str_int env_all_fail) ''/acme'' urlmap_two_matchers
     = Inr (JObj [(''pathMatchers'', JArr [matcher_one_cleaned, matcher_two])]) \<and>
   matcher_two = JObj [(''name'', JStr ''path-matcher-2''), (''pathRules'', JArr [rule_acme])] \<and>
   rule_matches ''/acme'' rule_acme = Inr True"
  by code_simp

section \<open>No active path matcher\<close>




section \<open>Lemmas on the orchestrators\<close>

lemma stepD:
  "create_serverless_neg E cfg r s w = (x1, w') \<Longrightarrow> frame w w'"
  "create_iap_oauth_client E cfg w = (x2, w') \<Longrightarrow> frame w w'"
  "create_security_policy E cfg w = (x3, w') \<Longrightarrow> frame w w'"
  "create_backend_service E cfg r oc w = (x4, w') \<Longrightarrow> frame w w'"
  "get_cloud_run_url E cfg s r w = (x5, w') \<Longrightarrow> frame w w'"
  "add_path_rule E cfg p b u w = (x6, w') \<Longrightarrow> frame w w'"
  using neg_frame[of w E cfg r s] oauth_frame[of w E cfg] policy_frame[of w E cfg]
    backend_frame[of w E cfg r oc] url_frame[of w E cfg s r] path_frame[of w E cfg p b u]
  by simp_all

lemma provision_calls:
  assumes "provision E cfg p r s u w0 = (x, w')"
  shows "\<exists>w1 w''. frame w0 w1 \<and> take 1 (issued w0 w1) = [neg_describe_cmd cfg r] \<and>
           frame w1 w'' \<and> calls w' = calls w''"
proof -
  let ?b = "project_name cfg @ ''-backend''"
  obtain r1 w1 where n: "create_serverless_neg E cfg r s w0 = (r1, w1)"
    by (cases "create_serverless_neg E cfg r s w0")
  have f1: "frame w0 w1" using stepD(1)[OF n] .
  have i1: "take 1 (issued w0 w1) = [neg_describe_cmd cfg r]"
    using neg_first[of w0 E cfg r s] n by simp
  have "\<exists>w''. frame w1 w'' \<and> calls w' = calls w''"
  proof (cases r1)
    case False
    with assms n have "w' = w1" by (simp add: provision_def)
    then show ?thesis using frame_refl by blast
  next
    case r1: True
    obtain r2 w2 where o: "create_iap_oauth_client E cfg w1 = (r2, w2)"
      by (cases "create_iap_oauth_client E cfg w1")
    have F2: "frame w1 w2" using stepD(2)[OF o] .
    show ?thesis
    proof (cases r2)
      case None
      with assms n r1 o have "w' = w2" by (simp add: provision_def)
      then show ?thesis using F2 by blast
    next
      case r2: (Some oc)
      obtain r3 w3 where p: "create_security_policy E cfg w2 = (r3, w3)"
        by (cases "create_security_policy E cfg w2")
      have F3: "frame w1 w3" using frame_trans[OF F2 stepD(3)[OF p]] .
      show ?thesis
      proof (cases r3)
        case False
        with assms n r1 o r2 p have "w' = w3" by (simp add: provision_def)
        then show ?thesis using F3 by blast
      next
        case r3: True
        obtain r4 w4 where b: "create_backend_service E cfg r oc w3 = (r4, w4)"
          by (cases "create_backend_service E cfg r oc w3")
        have F4: "frame w1 w4" using frame_trans[OF F3 stepD(4)[OF b]] .
        show ?thesis
        proof (cases r4)
          case False
          with assms n r1 o r2 p r3 b have "w' = w4" by (simp add: provision_def)
          then show ?thesis using F4 by blast
        next
          case r4: True
          define w5 where "w5 = w4\<lparr>calls := calls w4 @ [iap_binding_cmd cfg ?b]\<rparr>"
          have g: "grant_iap_access E cfg ?b w4 = (True, w5)"
            unfolding w5_def by (rule grant_eq)
          have F5: "frame w1 w5" unfolding w5_def by (rule frame_trans[OF F4 frame_calls])
          obtain r6 w6 where uu: "(if u then get_cloud_run_url E cfg s r w5 else (Inr None, w5)) = (r6, w6)"
            by (cases "if u then get_cloud_run_url E cfg s r w5 else (Inr None, w5)")
          have F6: "frame w1 w6"
          proof (cases u)
            case True
            with uu have "get_cloud_run_url E cfg s r w5 = (r6, w6)" by simp
            from frame_trans[OF F5 stepD(5)[OF this]] show ?thesis .
          next
            case False
            with uu F5 show ?thesis by simp
          qed
          have head: "(x, w') = (case r6 of Inl e \<Rightarrow> (Inl e, w6)
               | Inr url \<Rightarrow> (case add_path_rule E cfg p ?b url w6 of
                   (Inl e, w7) \<Rightarrow> (Inl e, w7)
                 | (Inr False, w7) \<Rightarrow> (Inr False, w7)
                 | (Inr True, w7) \<Rightarrow> (Inr True, w7\<lparr>manifest := add_manifest p ?b oc (manifest w7)\<rparr>)))"
            unfolding assms[symmetric] provision_def Let_def
            using n r1 o r2 p r3 b r4 g uu by simp
          show ?thesis
          proof (cases r6)
            case (Inl e)
            with head have "w' = w6" by simp
            then show ?thesis using F6 by blast
          next
            case r6: (Inr url)
            obtain r7 w7 where a: "add_path_rule E cfg p ?b url w6 = (r7, w7)"
              by (cases "add_path_rule E cfg p ?b url w6")
            have F7: "frame w1 w7" using frame_trans[OF F6 stepD(6)[OF a]] .
            have "calls w' = calls w7"
              using head r6 a by (cases r7; cases "projr r7") auto
            then show ?thesis using F7 by blast
          qed
        qed
      qed
    qed
  qed
  then show ?thesis using f1 i1 by blast
qed

lemma first_issued:
  assumes "frame a b" "take 1 (issued a b) = [c]" "frame b d" "calls e = calls d"
  shows "take 1 (issued a e) = [c]"
proof -
  have "issued a e = issued a d" using assms(4) by (simp add: issued_def)
  also have "\<dots> = issued a b @ issued b d" by (rule issued_trans[OF assms(1,3)])
  finally show ?thesis using assms(2) by (cases "issued a b") auto
qed

lemma provision_first:
  "take 1 (issued w0 (snd (provision E cfg p r s u w0))) = [neg_describe_cmd cfg r]"
proof -
  obtain x w' where e: "provision E cfg p r s u w0 = (x, w')"
    by (cases "provision E cfg p r s u w0")
  from provision_calls[OF e] obtain w1 w'' where
    "frame w0 w1" "take 1 (issued w0 w1) = [neg_describe_cmd cfg r]" "frame w1 w''" "calls w' = calls w''"
    by blast
  from first_issued[OF this] show ?thesis by (simp add: e)
qed

lemma remove_path_first:
  "take 1 (issued w (snd (remove_path_rule E cfg p w))) = [urlmap_describe_cmd cfg]"
  by (simp add: remove_path_rule_def run_eq Let_def issued_def split: option.splits sum.splits)


lemma teardown_eq:
  "teardown E cfg p r w =
     (case remove_path_rule E cfg p w of
        (Inl e, w1) \<Rightarrow> (Inl e, w1)
      | (Inr removed, w1) \<Rightarrow>
          (Inr True,
           w1\<lparr>calls := calls w1 @ [backend_delete_cmd cfg, neg_delete_cmd cfg r, policy_delete_cmd cfg],
               manifest := remove_manifest p (project_name cfg @ ''-backend'') (manifest w1)\<rparr>))"
  by (simp add: teardown_def run_eq Let_def split: prod.splits sum.splits)

lemma teardown_first:
  "take 1 (issued w (snd (teardown E cfg p r w))) = [urlmap_describe_cmd cfg]"
proof -
  obtain x w1 where e: "remove_path_rule E cfg p w = (x, w1)"
    by (cases "remove_path_rule E cfg p w")
  have f: "frame w w1" using remove_path_frame[of w E cfg p] e by simp
  have i: "take 1 (issued w w1) = [urlmap_describe_cmd cfg]"
    using remove_path_first[of w E cfg p] e by simp
  show ?thesis
  proof (cases x)
    case (Inl a)
    then show ?thesis using e i by (simp add: teardown_eq)
  next
    case (Inr b)
    have "take 1 (issued w (w1\<lparr>calls := calls w1 @ [backend_delete_cmd cfg, neg_delete_cmd cfg r, policy_delete_cmd cfg],
               manifest := remove_manifest p (project_name cfg @ ''-backend'') (manifest w1)\<rparr>))
          = [urlmap_describe_cmd cfg]"
      by (rule first_issued[OF f i frame_calls]) simp
    then show ?thesis using e Inr by (simp add: teardown_eq)
  qed
qed


section \<open>The two confirmations\<close>

text \<open>
  C4 (amended). Both prompts compare the lowercased line. \<^verbatim>\<open>add_to_loadbalancer\<close> (on a
  deployed project) goes on to the provisioning steps exactly when the lowercased line
  is \<^verbatim>\<open>y\<close> or \<^verbatim>\<open>yes\<close>; \<^verbatim>\<open>remove_from_loadbalancer\<close> without \<^verbatim>\<open>skip_confirmation\<close> goes
  on to the teardown exactly when the lowercased line is \<^verbatim>\<open>yes\<close> (so \<^verbatim>\<open>y\<close> aborts, and
  \<^verbatim>\<open>YES\<close> or \<^verbatim>\<open>Yes\<close> proceed). Otherwise each returns failure in the world in which only
  the line was read and the prompt shown: no command issued, no manifest write. Going
  on means issuing commands: the provisioning starts with the NEG probe, the teardown
  with the URL-map describe.
\<close>

theorem confirmation_policies:
  fixes E :: env and cfg :: project_config and w wa wr :: world
    and path_arg region_arg service_arg rm_path_arg :: "string option" and use_host_rewrite :: bool
    and path region service rm_path rm_region :: string
  defines "path \<equiv> str_or_default path_arg (''/'' @ project_name cfg)"
    and "region \<equiv> str_or_default (str_or region_arg (get_config (manifest w) ''region''))
                    (default_region cfg)"
    and "service \<equiv> str_or_default service_arg (project_name cfg)"
    and "rm_path \<equiv> str_or_default (str_or rm_path_arg (get_config (manifest w) ''loadbalancer_path''))
                     (''/'' @ project_name cfg)"
    and "rm_region \<equiv> str_or_default (get_config (manifest w) ''region'') (default_region cfg)"
  assumes inp: "stdin w = l # ls"
    and wa: "wa = w\<lparr>stdin := ls, prompts := prompts w @ [''Do you want to continue? (y/N): '']\<rparr>"
    and wr: "wr = w\<lparr>stdin := ls, prompts := prompts w @ [''Do you want to continue? (yes/N): '']\<rparr>"
  shows "(get_state (manifest w) ''deployed'' = Some True \<longrightarrow>
            add_to_loadbalancer E cfg path_arg region_arg service_arg use_host_rewrite w =
              (if py_lower l \<in> set [''y'', ''yes'']
               then provision E cfg path region service use_host_rewrite wa
               else (Inr False, wa))) \<and>
         take 1 (issued wa (snd (provision E cfg path region service use_host_rewrite wa)))
           = [neg_describe_cmd cfg region] \<and>
         remove_from_loadbalancer E cfg rm_path_arg False w =
           (if py_lower l = ''yes'' then teardown E cfg rm_path rm_region wr else (Inr False, wr)) \<and>
         take 1 (issued wr (snd (teardown E cfg rm_path rm_region wr))) = [urlmap_describe_cmd cfg]"
  using inp
  by (simp add: add_to_loadbalancer_def remove_from_loadbalancer_def Let_def py_input_def
      path_def region_def service_def rm_path_def rm_region_def wa wr provision_first
      teardown_first del: One_nat_def)

theorem confirmation_policies_witness:
  "stdin (world_of [''Yes''] manifest_deployed) = [''Yes''] \<and>
   fst (remove_from_loadbalancer env_all_fail cfg_acme None False (world_of [''Yes''] manifest_deployed))
     = Inr True \<and>
   fst (add_to_loadbalancer env_all_fail cfg_acme None None None True (world_of [''Yes''] manifest_deployed))
     = Inr False"
proof -
  let ?w = "world_of [''Yes''] manifest_deployed"
  have h: "stdin ?w = ''Yes'' # []" by code_simp
  have d: "get_state (manifest ?w) ''deployed'' = Some True" by code_simp
  have l: "py_lower ''Yes'' = ''yes''" by code_simp
  note T = confirmation_policies [OF h refl refl, of env_all_fail cfg_acme None None None True None]
  have t: "fst (teardown env_all_fail cfg_acme
             (str_or_default (str_or None (get_config (manifest ?w) ''loadbalancer_path''))
                (''/'' @ project_name cfg_acme))
             (str_or_default (get_config (manifest ?w) ''region'') (default_region cfg_acme))
             (?w\<lparr>stdin := [], prompts := prompts ?w @ [''Do you want to continue? (yes/N): '']\<rparr>))
           = Inr True"
    by code_simp
  have p: "fst (provision env_all_fail cfg_acme
             (str_or_default None (''/'' @ project_name cfg_acme))
             (str_or_default (str_or None (get_config (manifest ?w) ''region'')) (default_region cfg_acme))
             (str_or_default None (project_name cfg_acme)) True
             (?w\<lparr>stdin := [], prompts := prompts ?w @ [''Do you want to continue? (y/N): '']\<rparr>))
           = Inr False"
    by code_simp
  show ?thesis using T d l t p h by simp
qed

theorem confirmation_policies_counterexample:
  "''YES'' \<noteq> ''yes'' \<and>
   fst (remove_from_loadbalancer env_all_fail cfg_acme None False (world_of [''YES''] manifest_deployed))
     = Inr True \<and>
   calls (snd (remove_from_loadbalancer env_all_fail cfg_acme None False
                 (world_of [''YES''] manifest_deployed)))
     = [urlmap_describe_cmd cfg_acme, backend_delete_cmd cfg_acme,
        neg_delete_cmd cfg_acme ''europe-west4'', policy_delete_cmd cfg_acme] \<and>
   get_state (manifest (snd (remove_from_loadbalancer env_all_fail cfg_acme None False
                 (world_of [''YES''] manifest_deployed)))) ''loadbalancer_configured'' = Some False"
  by code_simp


section \<open>Best-effort teardown\<close>



lemma read_only_probes:
  "read_only (neg_describe_cmd cfg r)" "read_only (policy_describe_cmd cfg)"
  "read_only (backend_describe_cmd cfg)" "\<not> read_only (backend_update_policy_cmd cfg)"
  "\<not> read_only (backend_delete_cmd cfg)" "\<not> read_only (backend_create_cmd cfg oc)"
  "\<not> read_only (backend_add_neg_cmd cfg r)"
  by (simp_all add: read_only_def neg_describe_cmd_def policy_describe_cmd_def
      backend_describe_cmd_def backend_update_policy_cmd_def backend_delete_cmd_def
      backend_create_cmd_def backend_add_neg_cmd_def)

section \<open>Provisioners on resources that exist\<close>




section \<open>The poisoned backend service\<close>

text \<open>
  C6 (amended). When the probed backend service exists, its decoded record has no
  (or an empty) \<^verbatim>\<open>backends\<close> and a \<^verbatim>\<open>portName\<close> that is true in Python's sense
  (a non-empty string), \<^verbatim>\<open>create_backend_service\<close> issues the delete; if the delete
  fails it returns failure at once, otherwise it runs the creation code. When the
  delete and the three creation commands succeed, the commands issued are the probe,
  the delete, the create, the NEG attachment and the policy attachment in this order,
  four mutating commands, and the result is success. An empty \<^verbatim>\<open>portName\<close> takes the
  other branch (the counterexample).
\<close>

theorem poisoned_backend_recovery:
  fixes E :: env and cfg :: project_config and w :: world
  defines "probe \<equiv> cloud E (calls w @ [backend_describe_cmd cfg])"
    and "w2 \<equiv> w\<lparr>calls := calls w @ [backend_describe_cmd cfg, backend_delete_cmd cfg]\<rparr>"
  assumes exists: "returncode probe = 0"
    and decoded: "json_loads E (stdout probe) = Some backend_info"
    and empty: "has_backends backend_info = Inr False"
    and port: "py_get backend_info ''portName'' JNull = Inr port_name"
    and port_set: "truthy port_name"
  shows "create_backend_service E cfg region oc w =
           (if returncode (cloud E (calls w2)) \<noteq> 0 then (False, w2)
            else create_fresh_backend E cfg region oc w2) \<and>
         (returncode (cloud E (calls w2)) = 0 \<and>
          returncode (cloud E (calls w2 @ [backend_create_cmd cfg oc])) = 0 \<and>
          returncode (cloud E (calls w2 @ [backend_create_cmd cfg oc, backend_add_neg_cmd cfg region])) = 0 \<and>
          returncode (cloud E (calls w2 @ [backend_create_cmd cfg oc, backend_add_neg_cmd cfg region,
                                           backend_update_policy_cmd cfg])) = 0
          \<longrightarrow>
          create_backend_service E cfg region oc w =
            (True, w\<lparr>calls := calls w @ [backend_describe_cmd cfg, backend_delete_cmd cfg,
                          backend_create_cmd cfg oc, backend_add_neg_cmd cfg region,
                          backend_update_policy_cmd cfg]\<rparr>) \<and>
          mutating_calls (issued w (snd (create_backend_service E cfg region oc w))) =
            [backend_delete_cmd cfg, backend_create_cmd cfg oc, backend_add_neg_cmd cfg region,
             backend_update_policy_cmd cfg])"
  using exists decoded empty port port_set
  by (simp add: create_backend_service_def create_fresh_backend_def run_eq Let_def probe_def w2_def
      mutating_calls_def read_only_probes)

theorem poisoned_backend_recovery_witness:
  "truthy (JStr ''http'') \<and>
   create_backend_service (env_ok backend_poisoned urlmap_active) cfg_acme ''europe-west4'' oauth_acme
     (world_of [] manifest_deployed) =
   (True, (world_of [] manifest_deployed)
            \<lparr>calls := calls (world_of [] manifest_deployed) @
               [backend_describe_cmd cfg_acme, backend_delete_cmd cfg_acme,
                backend_create_cmd cfg_acme oauth_acme, backend_add_neg_cmd cfg_acme ''europe-west4'',
                backend_update_policy_cmd cfg_acme]\<rparr>)"
proof -
  let ?E = "env_ok backend_poisoned urlmap_active"
  let ?w = "world_of [] manifest_deployed"
  have e: "returncode (cloud ?E (calls ?w @ [backend_describe_cmd cfg_acme])) = 0"
    by (simp add: env_ok_def)
  have d: "json_loads ?E (stdout (cloud ?E (calls ?w @ [backend_describe_cmd cfg_acme]))) = Some backend_poisoned"
    by (simp add: env_ok_def backend_describe_cmd_def resource_of_def)
  have m: "has_backends backend_poisoned = Inr False" by (simp add: has_backends_def backend_poisoned_def)
  have p: "py_get backend_poisoned ''portName'' JNull = Inr (JStr ''http'')"
    by (simp add: backend_poisoned_def)
  have t: "truthy (JStr ''http'')" by simp
  have r: "returncode (cloud ?E h) = 0" for h by (simp add: env_ok_def)
  from poisoned_backend_recovery [OF e d m p t, of "''europe-west4''" oauth_acme] r t
  show ?thesis by blast
qed

theorem poisoned_backend_recovery_counterexample:
  "py_get backend_empty_port ''portName'' JNull = Inr (JStr []) \<and>
   has_backends backend_empty_port = Inr False \<and>
   create_backend_service (env_ok backend_empty_port urlmap_active) cfg_acme ''europe-west4'' oauth_acme
     (world_of [] manifest_deployed) =
   (True, (world_of [] manifest_deployed)
            \<lparr>calls := [backend_describe_cmd cfg_acme, backend_add_neg_cmd cfg_acme ''europe-west4'']\<rparr>)"
  by code_simp

end
